theory Spec2Isabelle
  imports Main "HOL-Library.AList"
begin

section \<open>Python values used by the gateway\<close>

text \<open>
  Exceptions of the source are values. Only the exception classes that the modelled code
  can raise are listed.
\<close>

datatype error = KeyError | ValueError | RuntimeError | TypeError | ServiceFailure

text \<open>
  \<^verbatim>\<open>f"{n}"\<close> for a Python int: the decimal digits, with a leading minus sign for a
  negative number.
\<close>

definition digit_char :: "nat \<Rightarrow> char" where
  "digit_char d = ''0123456789'' ! d"

function str_nat :: "nat \<Rightarrow> string" where
  "str_nat n = (if n < 10 then [digit_char n] else str_nat (n div 10) @ [digit_char (n mod 10)])"
  by pat_completeness auto
termination
  by (relation "measure (\<lambda>n. n)") auto

declare str_nat.simps [simp del]

definition str_int :: "int \<Rightarrow> string" where
  "str_int i = (if i < 0 then CHR ''-'' # str_nat (nat (- i)) else str_nat (nat i))"

section \<open>The session registry: \<^verbatim>\<open>ConnectionManager\<close> of stream.py\<close>

text \<open>
  A websocket object is an opaque handle. The outer dictionaries of the manager are keyed
  by session id and only looked up, stored and popped, so they are maps. The inner
  dictionaries are association lists in insertion order, as a Python dict is:
  \<^verbatim>\<open>d[k] = v\<close> is \<open>AList.update\<close>, \<^verbatim>\<open>d.pop(k, None)\<close> is \<open>AList.delete\<close>,
  \<^verbatim>\<open>len(d)\<close> is \<open>length\<close>, \<^verbatim>\<open>d.values()\<close> is \<open>map snd\<close>.
  Timestamps and confidence scores are opaque values that the registry only stores.
\<close>

type_synonym websocket = nat
type_synonym timestamp = nat
type_synonym score = int

record session_info =
  status :: string
  chunks_processed :: int

record transcription_result =
  chunk_id :: string
  timestamp :: timestamp
  rtext :: string
  is_final :: bool
  confidence :: "score option"
  speaker_id :: "string option"
  success :: bool

text \<open>
  Modelled from the spec: \<^verbatim>\<open>StreamTranscriptionService\<close> (services/stream_service.py is
  not among the sources; stream.py only calls it). The spec gives its interface,
  \<^verbatim>\<open>start_session(session_id, request) -> bool\<close>,
  \<^verbatim>\<open>process_audio_chunk(chunk, request, session_id)\<close> and
  \<^verbatim>\<open>end_session(session_id) -> bool\<close>, and says of the end of a session: close the RPC
  channel exactly once; double-close must be a no-op. The state of one service object
  records whether its session is running, the chunks handed to it, how often
  \<^verbatim>\<open>end_session\<close> was called on it and how often the upstream shutdown really ran.
\<close>

record stream_chunk =
  sc_chunk_id :: string
  sc_audio_data :: "nat list"
  sc_is_final :: bool

record service =
  svc_active :: bool
  svc_chunks :: "stream_chunk list"
  svc_end_calls :: nat
  svc_shutdowns :: nat

definition new_service :: service where
  "new_service = \<lparr>svc_active = False, svc_chunks = [], svc_end_calls = 0, svc_shutdowns = 0\<rparr>"

definition start_session :: "service \<Rightarrow> bool \<times> service" where
  "start_session s = (True, s\<lparr>svc_active := True\<rparr>)"

definition process_audio_chunk :: "service \<Rightarrow> stream_chunk \<Rightarrow> service" where
  "process_audio_chunk s c = s\<lparr>svc_chunks := svc_chunks s @ [c]\<rparr>"

definition end_session :: "service \<Rightarrow> bool \<times> service" where
  "end_session s =
     (if svc_active s
      then (True, s\<lparr>svc_active := False, svc_end_calls := svc_end_calls s + 1,
                     svc_shutdowns := svc_shutdowns s + 1\<rparr>)
      else (False, s\<lparr>svc_end_calls := svc_end_calls s + 1\<rparr>))"

record manager =
  active_connections :: "string \<rightharpoonup> (string \<times> websocket) list"
  client_channels :: "string \<rightharpoonup> (string \<times> int) list"
  chunk_channel_map :: "string \<rightharpoonup> (string \<times> int) list"
  transcription_sessions :: "string \<rightharpoonup> session_info"
  session_results :: "string \<rightharpoonup> transcription_result list"
  services :: "string \<rightharpoonup> service"

definition init_manager :: manager where
  "init_manager = \<lparr>active_connections = Map.empty, client_channels = Map.empty,
     chunk_channel_map = Map.empty, transcription_sessions = Map.empty,
     session_results = Map.empty, services = Map.empty\<rparr>"

text \<open>
  \<^verbatim>\<open>ch = 1; while ch in used: ch += 1\<close>. The loop ends because each round passes one
  more element of the finite \<open>used\<close>.
\<close>

function first_free :: "int list \<Rightarrow> int \<Rightarrow> int" where
  "first_free used ch = (if ch \<in> set used then first_free used (ch + 1) else ch)"
  by pat_completeness auto
termination
proof (relation "measure (\<lambda>(used, ch). length (filter (\<lambda>x. ch \<le> x) used))")
  show "wf (measure (\<lambda>(used, ch). length (filter (\<lambda>x. ch \<le> x) used)))"
    by simp
next
  fix used :: "int list" and ch :: int
  assume mem: "ch \<in> set used"
  have eq: "filter (\<lambda>x. ch + 1 \<le> x) used = filter (\<lambda>x. ch + 1 \<le> x) (filter (\<lambda>x. ch \<le> x) used)"
    by (simp add: conj_commute) (rule filter_cong, auto)
  have "ch \<in> set (filter (\<lambda>x. ch \<le> x) used)"
    using mem by simp
  then have "length (filter (\<lambda>x. ch + 1 \<le> x) (filter (\<lambda>x. ch \<le> x) used))
      < length (filter (\<lambda>x. ch \<le> x) used)"
    by (rule length_filter_less) simp
  then show "((used, ch + 1), (used, ch)) \<in> measure (\<lambda>(used, ch). length (filter (\<lambda>x. ch \<le> x) used))"
    using eq by simp
qed

declare first_free.simps [simp del]

definition client_id_of :: "nat \<Rightarrow> string" where
  "client_id_of n = ''c'' @ str_nat n"

text \<open>
  \<^verbatim>\<open>connect\<close> (lines 37-70). The containers of the session are created when the session
  is not in \<^verbatim>\<open>active_connections\<close>; \<^verbatim>\<open>self.client_channels[session_id]\<close> raises
  KeyError when that dictionary lacks the session. The result is the returned client id or
  the exception, with the manager as the call leaves it.
\<close>

definition init_containers :: "manager \<Rightarrow> string \<Rightarrow> manager" where
  "init_containers m session_id =
     (let m1 = (if active_connections m session_id = None
                then m\<lparr>active_connections := (active_connections m)(session_id \<mapsto> []),
                       client_channels := (client_channels m)(session_id \<mapsto> []),
                       chunk_channel_map := (chunk_channel_map m)(session_id \<mapsto> [])\<rparr>
                else m);
          m2 = (if transcription_sessions m1 session_id = None
                then m1\<lparr>transcription_sessions := (transcription_sessions m1)(session_id \<mapsto>
                          \<lparr>status = ''connected'', chunks_processed = 0\<rparr>)\<rparr>
                else m1)
      in (if session_results m2 session_id = None
          then m2\<lparr>session_results := (session_results m2)(session_id \<mapsto> [])\<rparr>
          else m2))"

definition connect :: "manager \<Rightarrow> websocket \<Rightarrow> string \<Rightarrow> int option \<Rightarrow> (error + string) \<times> manager" where
  "connect m websocket session_id channel =
     (let m3 = init_containers m session_id
      in case active_connections m3 session_id of
           None \<Rightarrow> (Inl KeyError, m3)
         | Some conns \<Rightarrow>
             (let next_idx = length conns + 1;
                  client_id = client_id_of next_idx
              in case client_channels m3 session_id of
                   None \<Rightarrow> (Inl KeyError, m3)
                 | Some chans \<Rightarrow>
                     (let ch = (case channel of
                                  None \<Rightarrow> first_free (map snd chans) 1
                                | Some c \<Rightarrow> c)
                      in (Inr client_id,
                          m3\<lparr>active_connections := (active_connections m3)(session_id \<mapsto>
                                AList.update client_id websocket conns),
                             client_channels := (client_channels m3)(session_id \<mapsto>
                                AList.update client_id ch chans)\<rparr>))))"

text \<open>\<^verbatim>\<open>disconnect\<close> (lines 72-93): one client, or the whole session when no client id is given.\<close>

definition disconnect :: "manager \<Rightarrow> string \<Rightarrow> string option \<Rightarrow> manager" where
  "disconnect m session_id client_id =
     (case client_id of
        Some cid \<Rightarrow>
          (let m1 = (case active_connections m session_id of
                       Some conns \<Rightarrow> m\<lparr>active_connections := (active_connections m)(session_id \<mapsto>
                                         AList.delete cid conns)\<rparr>
                     | None \<Rightarrow> m);
               m2 = (case client_channels m1 session_id of
                       Some chans \<Rightarrow> m1\<lparr>client_channels := (client_channels m1)(session_id \<mapsto>
                                         AList.delete cid chans)\<rparr>
                     | None \<Rightarrow> m1)
           in (if active_connections m2 session_id = Some []
               then m2\<lparr>active_connections := (active_connections m2)(session_id := None),
                       client_channels := (client_channels m2)(session_id := None)\<rparr>
               else m2))
      | None \<Rightarrow>
          m\<lparr>active_connections := (active_connections m)(session_id := None),
            client_channels := (client_channels m)(session_id := None)\<rparr>)"

definition add_transcription_result :: "manager \<Rightarrow> string \<Rightarrow> transcription_result \<Rightarrow> manager" where
  "add_transcription_result m session_id result =
     (let m1 = (if session_results m session_id = None
                then m\<lparr>session_results := (session_results m)(session_id \<mapsto> [])\<rparr>
                else m)
      in case session_results m1 session_id of
           None \<Rightarrow> m1
         | Some rs \<Rightarrow> m1\<lparr>session_results := (session_results m1)(session_id \<mapsto> rs @ [result])\<rparr>)"

definition get_session_results :: "manager \<Rightarrow> string \<Rightarrow> bool \<Rightarrow> transcription_result list option" where
  "get_session_results m session_id include_partial =
     (case session_results m session_id of
        None \<Rightarrow> None
      | Some results \<Rightarrow>
          Some (if \<not> include_partial then filter is_final results else results))"

text \<open>\<^verbatim>\<open>" ".join(texts)\<close>\<close>

fun join_space :: "string list \<Rightarrow> string" where
  "join_space [] = []"
| "join_space [t] = t"
| "join_space (t # u # ts) = t @ '' '' @ join_space (u # ts)"

text \<open>
  \<^verbatim>\<open>get_session_transcript\<close> (lines 110-121). The text format joins the non-empty texts
  of the final results; the json format returns \<^verbatim>\<open>json.dumps(results, ...)\<close>, kept here
  as the list that is serialised; any other format, and an empty or missing final-only
  list (\<^verbatim>\<open>if not results\<close>), gives None.
\<close>

datatype transcript = TextTranscript string | JsonTranscript "transcription_result list"

definition get_session_transcript :: "manager \<Rightarrow> string \<Rightarrow> string \<Rightarrow> transcript option" where
  "get_session_transcript m session_id format_type =
     (case get_session_results m session_id False of
        None \<Rightarrow> None
      | Some results \<Rightarrow>
          if results = [] then None
          else if format_type = ''text''
          then Some (TextTranscript (join_space (filter (\<lambda>t. t \<noteq> []) (map rtext results))))
          else if format_type = ''json'' then Some (JsonTranscript results)
          else None)"

definition get_client_channel :: "manager \<Rightarrow> string \<Rightarrow> string \<Rightarrow> int option" where
  "get_client_channel m session_id client_id =
     (case client_channels m session_id of
        None \<Rightarrow> None
      | Some chans \<Rightarrow> map_of chans client_id)"

definition map_chunk_channel :: "manager \<Rightarrow> string \<Rightarrow> string \<Rightarrow> int \<Rightarrow> manager" where
  "map_chunk_channel m session_id cid channel =
     (let m1 = (if chunk_channel_map m session_id = None
                then m\<lparr>chunk_channel_map := (chunk_channel_map m)(session_id \<mapsto> [])\<rparr>
                else m)
      in case chunk_channel_map m1 session_id of
           None \<Rightarrow> m1
         | Some cm \<Rightarrow> m1\<lparr>chunk_channel_map := (chunk_channel_map m1)(session_id \<mapsto>
                          AList.update cid channel cm)\<rparr>)"

definition resolve_channel_for_chunk :: "manager \<Rightarrow> string \<Rightarrow> string \<Rightarrow> int option" where
  "resolve_channel_for_chunk m session_id cid =
     (case chunk_channel_map m session_id of
        None \<Rightarrow> None
      | Some cm \<Rightarrow> map_of cm cid)"

definition has_active_clients :: "manager \<Rightarrow> string \<Rightarrow> bool" where
  "has_active_clients m session_id =
     (case active_connections m session_id of
        None \<Rightarrow> False
      | Some conns \<Rightarrow> conns \<noteq> [])"

definition get_service :: "manager \<Rightarrow> string \<Rightarrow> service option" where
  "get_service m session_id = services m session_id"

definition set_service :: "manager \<Rightarrow> string \<Rightarrow> service \<Rightarrow> manager" where
  "set_service m session_id s = m\<lparr>services := (services m)(session_id \<mapsto> s)\<rparr>"

text \<open>
  Lines 207-208 of the endpoint, for each of a sequence of clients of one session that give
  no \<^verbatim>\<open>channel\<close> parameter: \<^verbatim>\<open>client_id = connect(...)\<close>, then
  \<^verbatim>\<open>client_channel = get_client_channel(session_id, client_id)\<close>.
\<close>

fun connect_all :: "manager \<Rightarrow> string \<Rightarrow> websocket list \<Rightarrow> (error + string \<times> int option) list \<times> manager" where
  "connect_all m session_id [] = ([], m)"
| "connect_all m session_id (ws # wss) =
     (case connect m ws session_id None of
        (Inl e, m') \<Rightarrow>
          (let (rs, m'') = connect_all m' session_id wss in (Inl e # rs, m''))
      | (Inr cid, m') \<Rightarrow>
          (let (rs, m'') = connect_all m' session_id wss
           in (Inr (cid, get_client_channel m' session_id cid) # rs, m'')))"


definition assigned_channels :: "(error + string \<times> int option) list \<Rightarrow> int option list" where
  "assigned_channels rs = map (\<lambda>r. case r of Inl e \<Rightarrow> None | Inr (cid, ch) \<Rightarrow> ch) rs"

text \<open>
  The state of a session after \<open>k\<close> clients connected without a channel request and nobody
  left: the clients are \<^verbatim>\<open>c1\<close> .. \<^verbatim>\<open>ck\<close> in this order and client \<^verbatim>\<open>cj\<close> holds channel \<open>j\<close>.
\<close>

definition connected_upto :: "manager \<Rightarrow> string \<Rightarrow> nat \<Rightarrow> bool" where
  "connected_upto m session_id k =
     (\<exists>conns chans. active_connections m session_id = Some conns \<and>
        client_channels m session_id = Some chans \<and>
        map fst conns = map client_id_of [1..<Suc k] \<and>
        chans = map (\<lambda>j. (client_id_of j, int j)) [1..<Suc k])"


text \<open>
  Sequences of registry calls, for the properties that hold along the life of a session.
  \<open>keeps_session s k c\<close> says of the next call that it neither maps chunk \<open>k\<close> of
  session \<open>s\<close> to a channel other than \<open>c\<close> nor connects to \<open>s\<close> after its last client
  left (which creates the containers of \<open>s\<close> anew, lines 40-43).
\<close>


datatype registry_op =
    Connect websocket string "int option"
  | Disconnect string "string option"
  | MapChunk string string int
  | AddResult string transcription_result

fun apply_op :: "manager \<Rightarrow> registry_op \<Rightarrow> manager" where
  "apply_op m (Connect ws session_id channel) = snd (connect m ws session_id channel)"
| "apply_op m (Disconnect session_id client_id) = disconnect m session_id client_id"
| "apply_op m (MapChunk session_id cid channel) = map_chunk_channel m session_id cid channel"
| "apply_op m (AddResult session_id result) = add_transcription_result m session_id result"

fun keeps_session :: "string \<Rightarrow> string \<Rightarrow> int \<Rightarrow> manager \<Rightarrow> registry_op \<Rightarrow> bool" where
  "keeps_session s k c m (Connect ws session_id channel) =
     (session_id = s \<longrightarrow> active_connections m s \<noteq> None)"
| "keeps_session s k c m (MapChunk session_id cid channel) =
     (session_id = s \<and> cid = k \<longrightarrow> channel = c)"
| "keeps_session s k c m _ = True"

fun session_continues :: "string \<Rightarrow> string \<Rightarrow> int \<Rightarrow> manager \<Rightarrow> registry_op list \<Rightarrow> bool" where
  "session_continues s k c m [] = True"
| "session_continues s k c m (x # xs) =
     (keeps_session s k c m x \<and> session_continues s k c (apply_op m x) xs)"


text \<open>Sample values for the concrete runs below.\<close>

definition mk_result :: "string \<Rightarrow> string \<Rightarrow> bool \<Rightarrow> transcription_result" where
  "mk_result cid t fin = \<lparr>chunk_id = cid, timestamp = 0, rtext = t, is_final = fin,
     confidence = None, speaker_id = None, success = True\<rparr>"

definition with_results :: "string \<Rightarrow> transcription_result list \<Rightarrow> manager" where
  "with_results session_id log = init_manager\<lparr>session_results := [session_id \<mapsto> log]\<rparr>"

definition demo_result :: transcription_result where
  "demo_result = \<lparr>chunk_id = ''ch1-a'', timestamp = 0, rtext = ''hi'', is_final = True,
     confidence = None, speaker_id = Some ''channel_1'', success = True\<rparr>"

section \<open>The upstream adapter: \<^verbatim>\<open>YandexSpeechKitV3Service\<close>\<close>

text \<open>
  The settings object, as far as the adapter reads it. \<^verbatim>\<open>getattr(settings, name, None)\<close> is
  tested for truth: a missing attribute, None and the empty string all count as not
  configured.
\<close>

record settings =
  yandex_api_key :: "string option"
  yandex_iam_token :: "string option"
  yandex_folder_id :: "string option"

definition truthy :: "string option \<Rightarrow> bool" where
  "truthy v = (case v of None \<Rightarrow> False | Some s \<Rightarrow> s \<noteq> [])"

text \<open>\<^verbatim>\<open>_build_auth_metadata\<close> (lines 56-71); the \<^verbatim>\<open>raise ValueError\<close> is \<open>Inl ValueError\<close>.\<close>

definition build_auth_metadata :: "settings \<Rightarrow> error + (string \<times> string) list" where
  "build_auth_metadata st =
     (if truthy (yandex_api_key st)
      then Inr [(''authorization'', ''Api-Key '' @ the (yandex_api_key st))]
      else if truthy (yandex_iam_token st)
      then Inr ((''authorization'', ''Bearer '' @ the (yandex_iam_token st)) #
                (if truthy (yandex_folder_id st)
                 then [(''x-folder-id'', the (yandex_folder_id st))]
                 else []))
      else Inl ValueError)"

text \<open>
  The protobuf messages. \<^verbatim>\<open>StreamingRequest\<close> is a one-of; the adapter builds
  \<^verbatim>\<open>session_options\<close> and \<^verbatim>\<open>chunk\<close> only, the other two members of the backend's message
  (\<^verbatim>\<open>silence_chunk\<close>, \<^verbatim>\<open>eou\<close>) are listed so that their absence can be stated.
\<close>

record streaming_options =
  audio_encoding :: string
  sample_rate_hertz :: int
  audio_channel_count :: int
  text_normalization :: string
  profanity_filter :: bool
  literature_text :: bool
  restriction_type :: string
  language_code :: "string list"
  audio_processing_type :: string

datatype streaming_request =
    SessionOptions streaming_options
  | Chunk "nat list"
  | SilenceChunk nat
  | Eou

definition normalize_language :: "string \<Rightarrow> string" where
  "normalize_language language =
     (let l1 = (if language = ''ru'' then ''ru-RU'' else language)
      in if l1 = ''en'' then ''en-US'' else l1)"

definition validate_sample_rate :: "int \<Rightarrow> int" where
  "validate_sample_rate sample_rate =
     (if sample_rate \<notin> {8000, 16000, 48000} then 16000 else sample_rate)"

definition session_options :: "string \<Rightarrow> int \<Rightarrow> streaming_options" where
  "session_options language sample_rate =
     \<lparr>audio_encoding = ''LINEAR16_PCM'',
      sample_rate_hertz = sample_rate,
      audio_channel_count = 1,
      text_normalization = ''TEXT_NORMALIZATION_ENABLED'',
      profanity_filter = True,
      literature_text = False,
      restriction_type = ''WHITELIST'',
      language_code = [language],
      audio_processing_type = ''REAL_TIME''\<rparr>"

text \<open>
  \<^verbatim>\<open>request_generator\<close> (lines 156-172): the configuration request, then one chunk request
  for each non-empty chunk of the audio stream (\<^verbatim>\<open>if not chunk: continue\<close>). The audio
  stream is the list of the chunks it delivers.
\<close>

fun audio_requests :: "nat list list \<Rightarrow> streaming_request list" where
  "audio_requests [] = []"
| "audio_requests (chunk # rest) =
     (if chunk = [] then audio_requests rest else Chunk chunk # audio_requests rest)"

definition request_generator :: "streaming_options \<Rightarrow> nat list list \<Rightarrow> streaming_request list" where
  "request_generator opts audio_stream = SessionOptions opts # audio_requests audio_stream"

fun is_session_options :: "streaming_request \<Rightarrow> bool" where
  "is_session_options (SessionOptions _) = True"
| "is_session_options _ = False"

fun is_chunk :: "streaming_request \<Rightarrow> bool" where
  "is_chunk (Chunk _) = True"
| "is_chunk _ = False"

text \<open>
  Responses of the backend and the uniform records the adapter yields. Word timings and
  confidence values are carried along as opaque values (the source divides the
  millisecond values by 1000.0).
\<close>

type_synonym word_info = "string \<times> int \<times> int"

record alternative =
  alt_text :: string
  alt_confidence :: score
  alt_words :: "word_info list"

record streaming_response =
  resp_partial :: "alternative list"
  resp_final :: "alternative list"
  resp_final_refinement :: "alternative list"

datatype detail = NoDetail | Detail string | ExceptionText error

datatype adapter_record =
    Recognized string string score "word_info list" bool
  | ErrorRecord string detail

fun is_error_record :: "adapter_record \<Rightarrow> bool" where
  "is_error_record (ErrorRecord _ _) = True"
| "is_error_record _ = False"

text \<open>
  \<^verbatim>\<open>str.strip()\<close> and \<^verbatim>\<open>str.isspace()\<close> on ASCII text: tab, line feed, vertical tab, form
  feed, carriage return, the separators 28 to 31 and the space.
\<close>

definition is_space :: "char \<Rightarrow> bool" where
  "is_space c = (of_char c \<in> {9, 10, 11, 12, 13, 28, 29, 30, 31, 32 :: nat})"

definition strip :: "string \<Rightarrow> string" where
  "strip s = rev (dropWhile is_space (rev (dropWhile is_space s)))"

definition recognized_alternatives ::
  "string \<Rightarrow> bool \<Rightarrow> bool \<Rightarrow> alternative list \<Rightarrow> adapter_record list" where
  "recognized_alternatives kind keep_words fin alts =
     map (\<lambda>alt. Recognized kind (alt_text alt) (alt_confidence alt)
                  (if keep_words then alt_words alt else []) fin)
       (filter (\<lambda>alt. strip (alt_text alt) \<noteq> []) alts)"

text \<open>\<^verbatim>\<open>_process_single_response\<close> (lines 211-302) on a well-formed response.\<close>

definition process_single_response :: "streaming_response \<Rightarrow> adapter_record list" where
  "process_single_response response =
     recognized_alternatives ''partial'' True False (resp_partial response) @
     recognized_alternatives ''final'' True True (resp_final response) @
     recognized_alternatives ''final_refinement'' False True (resp_final_refinement response)"

text \<open>
  What the backend does on one call: whether \<^verbatim>\<open>channel_ready\<close> or the call itself fails
  before the first response, the responses it delivers, and how the response stream ends
  (None: it completes; \<^verbatim>\<open>grpc.RpcError\<close> with code name and details; another exception with
  its text).
\<close>

datatype rpc_failure = RpcError string string | OtherException string

record upstream =
  connect_failure :: "rpc_failure option"
  responses :: "streaming_response list"
  stream_failure :: "rpc_failure option"

fun failure_record :: "rpc_failure \<Rightarrow> adapter_record" where
  "failure_record (RpcError code details) = ErrorRecord (''gRPC error: '' @ code) (Detail details)"
| "failure_record (OtherException msg) = ErrorRecord msg NoDetail"

text \<open>
  \<^verbatim>\<open>recognize_stream\<close> (lines 73-209): the records it yields, the requests its request
  generator offers to the call, and whether the channel was opened and closed.
\<close>

record stream_run =
  yielded :: "adapter_record list"
  requests :: "streaming_request list"
  channel_opened :: bool
  channel_closed :: bool

definition recognize_stream ::
  "bool \<Rightarrow> settings \<Rightarrow> upstream \<Rightarrow> nat list list \<Rightarrow> string \<Rightarrow> int \<Rightarrow> stream_run" where
  "recognize_stream grpc_available st up audio_stream language sample_rate =
     (if \<not> grpc_available
      then \<lparr>yielded = [ErrorRecord ''gRPC/Protobuf not available''
                          (Detail ''grpcio and protobuf are required'')],
            requests = [], channel_opened = False, channel_closed = False\<rparr>
      else case build_auth_metadata st of
             Inl e \<Rightarrow>
               \<lparr>yielded = [ErrorRecord ''Authorization failed'' (ExceptionText e)],
                requests = [], channel_opened = False, channel_closed = False\<rparr>
           | Inr metadata \<Rightarrow>
               (let opts = session_options (normalize_language language)
                             (validate_sample_rate sample_rate)
                in case connect_failure up of
                     Some f \<Rightarrow>
                       \<lparr>yielded = [failure_record f], requests = [],
                        channel_opened = True, channel_closed = True\<rparr>
                   | None \<Rightarrow>
                       \<lparr>yielded = concat (map process_single_response (responses up)) @
                                   (case stream_failure up of
                                      None \<Rightarrow> []
                                    | Some f \<Rightarrow> [failure_record f]),
                        requests = request_generator opts audio_stream,
                        channel_opened = True, channel_closed = True\<rparr>))"

definition demo_upstream :: upstream where
  "demo_upstream = \<lparr>connect_failure = None,
     responses = [\<lparr>resp_partial = [\<lparr>alt_text = ''hel'', alt_confidence = 0, alt_words = []\<rparr>],
                   resp_final = [], resp_final_refinement = []\<rparr>],
     stream_failure = Some (RpcError ''UNAVAILABLE'' ''connection reset'')\<rparr>"

section \<open>The client protocol handler: \<^verbatim>\<open>websocket_transcription_endpoint\<close> of stream.py\<close>

text \<open>
  One run of the endpoint is a coroutine with its own local variables; the steps below
  are the stretches of it between two messages, each taken as one step. The world is the
  global manager, the local state of every running endpoint (by websocket) and the
  messages sent so far to each websocket, in order.
\<close>

record stream_request =
  rq_provider :: string
  rq_language :: string
  rq_enable_diarization :: bool
  rq_sample_rate :: int

record connection =
  h_session_id :: string
  h_client_id :: string
  h_client_channel :: "int option"
  h_request :: stream_request
  session_already_ended :: bool

datatype error_text = InvalidJsonFormat | ExceptionStr error

datatype out_message =
    ConnectionEstablished string stream_request "int option"
  | TranscriptionResultMsg string string bool "score option" "string option" timestamp
  | SessionEnded string int
  | Pong
  | ErrorMessage error_text

text \<open>
  A parsed inbound message. The fields of an \<^verbatim>\<open>audio_chunk\<close> message are \<^verbatim>\<open>audio_data\<close>,
  \<^verbatim>\<open>audio_bytes\<close>, \<^verbatim>\<open>chunk_id\<close> (None: the key is missing or null) and \<^verbatim>\<open>is_final\<close>.
\<close>

datatype client_message =
    AudioChunk "string option" "string option" "string option" bool
  | EndSession
  | Ping
  | OtherType
  | InvalidJson

record world =
  mgr :: manager
  handlers :: "websocket \<rightharpoonup> connection"
  outbox :: "(websocket \<times> out_message) list"

definition init_world :: world where
  "init_world = \<lparr>mgr = init_manager, handlers = Map.empty, outbox = []\<rparr>"

text \<open>\<^verbatim>\<open>send_personal_message\<close> (lines 123-138); a failed send is only logged.\<close>

definition send_personal_message :: "world \<Rightarrow> out_message \<Rightarrow> string \<Rightarrow> string option \<Rightarrow> world" where
  "send_personal_message w message session_id client_id =
     (let conns = (case active_connections (mgr w) session_id of None \<Rightarrow> [] | Some cs \<Rightarrow> cs)
      in case client_id of
           Some cid \<Rightarrow>
             (case map_of conns cid of
                Some ws \<Rightarrow> w\<lparr>outbox := outbox w @ [(ws, message)]\<rparr>
              | None \<Rightarrow> w)
         | None \<Rightarrow> w\<lparr>outbox := outbox w @ map (\<lambda>ws. (ws, message)) (map snd conns)\<rparr>)"

text \<open>\<^verbatim>\<open>a or b\<close> on optional strings.\<close>

definition py_or :: "string option \<Rightarrow> string option \<Rightarrow> string option" where
  "py_or a b = (if truthy a then a else b)"

text \<open>
  \<^verbatim>\<open>bytes.fromhex\<close>: ASCII whitespace is skipped before each byte, a byte is two
  hexadecimal digits, anything else raises ValueError (None).
\<close>

definition is_py_space :: "char \<Rightarrow> bool" where
  "is_py_space c = (of_char c \<in> {9, 10, 11, 12, 13, 32 :: nat})"

definition hex_val :: "char \<Rightarrow> nat option" where
  "hex_val c = map_of
       [(CHR ''0'', 0), (CHR ''1'', 1), (CHR ''2'', 2), (CHR ''3'', 3),
        (CHR ''4'', 4), (CHR ''5'', 5), (CHR ''6'', 6), (CHR ''7'', 7),
        (CHR ''8'', 8), (CHR ''9'', 9), (CHR ''a'', 10), (CHR ''b'', 11),
        (CHR ''c'', 12), (CHR ''d'', 13), (CHR ''e'', 14), (CHR ''f'', 15),
        (CHR ''A'', 10), (CHR ''B'', 11), (CHR ''C'', 12), (CHR ''D'', 13),
        (CHR ''E'', 14), (CHR ''F'', 15)] c"

fun fromhex :: "string \<Rightarrow> nat list option" where
  "fromhex [] = Some []"
| "fromhex [c] = (if is_py_space c then Some [] else None)"
| "fromhex (c # d # ds) =
     (if is_py_space c then fromhex (d # ds)
      else case (hex_val c, hex_val d) of
             (Some t, Some b) \<Rightarrow> map_option ((#) (16 * t + b)) (fromhex ds)
           | _ \<Rightarrow> None)"

definition channel_str :: "int option \<Rightarrow> string" where
  "channel_str ch = (case ch of None \<Rightarrow> ''None'' | Some c \<Rightarrow> str_int c)"

text \<open>
  \<^verbatim>\<open>map_chunk_channel\<close> as the endpoint calls it, with the channel it read from the
  registry: \<^verbatim>\<open>int(None)\<close> raises TypeError after the dictionary of the session was created.
\<close>

definition map_chunk_channel_py :: "manager \<Rightarrow> string \<Rightarrow> string \<Rightarrow> int option \<Rightarrow> error option \<times> manager" where
  "map_chunk_channel_py m session_id cid channel =
     (case channel of
        None \<Rightarrow>
          (Some TypeError,
           if chunk_channel_map m session_id = None
           then m\<lparr>chunk_channel_map := (chunk_channel_map m)(session_id \<mapsto> [])\<rparr>
           else m)
      | Some c \<Rightarrow> (None, map_chunk_channel m session_id cid c))"

text \<open>
  Handing a chunk to the service of the session (lines 331-342 and 356-365). Whether
  \<^verbatim>\<open>process_audio_chunk\<close> raises is the service's matter and an input here.
\<close>

definition forward_chunk :: "manager \<Rightarrow> string \<Rightarrow> stream_chunk \<Rightarrow> bool \<Rightarrow> error option \<times> manager" where
  "forward_chunk m session_id chunk raises =
     (case get_service m session_id of
        None \<Rightarrow> (Some RuntimeError, m)
      | Some svc \<Rightarrow>
          if raises then (Some ServiceFailure, m)
          else (None, set_service m session_id (process_audio_chunk svc chunk)))"

definition increment_chunks :: "manager \<Rightarrow> string \<Rightarrow> error option \<times> manager" where
  "increment_chunks m session_id =
     (case transcription_sessions m session_id of
        None \<Rightarrow> (Some KeyError, m)
      | Some info \<Rightarrow>
          (None, m\<lparr>transcription_sessions := (transcription_sessions m)(session_id \<mapsto>
                     info\<lparr>chunks_processed := chunks_processed info + 1\<rparr>)\<rparr>))"

text \<open>The \<^verbatim>\<open>audio_chunk\<close> branch (lines 310-368): the exception raised, if any, and the manager.\<close>

definition handle_audio_chunk ::
  "manager \<Rightarrow> connection \<Rightarrow> string option \<Rightarrow> string option \<Rightarrow> string option \<Rightarrow> bool \<Rightarrow> bool
     \<Rightarrow> error option \<times> manager" where
  "handle_audio_chunk m h audio_data audio_bytes orig_chunk_id fin raises =
     (let session_id = h_session_id h
      in case py_or audio_data audio_bytes of
           Some raw_audio_hex \<Rightarrow>
             (case fromhex raw_audio_hex of
                None \<Rightarrow> (Some ValueError, m)
              | Some audio_data_bytes \<Rightarrow>
                  (case transcription_sessions m session_id of
                     None \<Rightarrow> (Some KeyError, m)
                   | Some info \<Rightarrow>
                       (let generated = session_id @ ''_'' @ str_int (chunks_processed info + 1);
                            new_chunk_id = ''ch'' @ channel_str (h_client_channel h) @ ''-'' @
                              (if truthy orig_chunk_id then the orig_chunk_id else generated)
                        in case map_chunk_channel_py m session_id new_chunk_id (h_client_channel h) of
                             (Some e, m1) \<Rightarrow> (Some e, m1)
                           | (None, m1) \<Rightarrow>
                               (case forward_chunk m1 session_id
                                       \<lparr>sc_chunk_id = new_chunk_id, sc_audio_data = audio_data_bytes,
                                        sc_is_final = fin\<rparr> raises of
                                  (Some e, m2) \<Rightarrow> (Some e, m2)
                                | (None, m2) \<Rightarrow> increment_chunks m2 session_id))))
         | None \<Rightarrow>
             if fin
             then (let new_chunk_id = ''ch'' @ channel_str (h_client_channel h) @ ''-final_'' @ session_id
                   in case map_chunk_channel_py m session_id new_chunk_id (h_client_channel h) of
                        (Some e, m1) \<Rightarrow> (Some e, m1)
                      | (None, m1) \<Rightarrow>
                          forward_chunk m1 session_id
                            \<lparr>sc_chunk_id = new_chunk_id, sc_audio_data = [], sc_is_final = True\<rparr> raises)
             else (None, m))"

text \<open>\<^verbatim>\<open>svc = manager.get_service(session_id); if svc: await svc.end_session(session_id)\<close>\<close>

definition end_service_session :: "manager \<Rightarrow> string \<Rightarrow> bool \<times> manager" where
  "end_service_session m session_id =
     (case get_service m session_id of
        None \<Rightarrow> (False, m)
      | Some svc \<Rightarrow> (True, set_service m session_id (snd (end_session svc))))"

text \<open>The \<^verbatim>\<open>finally\<close> block (lines 421-438); the endpoint ends.\<close>

definition finish :: "world \<Rightarrow> websocket \<Rightarrow> connection \<Rightarrow> world" where
  "finish w ws h =
     (let m1 = disconnect (mgr w) (h_session_id h) (Some (h_client_id h));
          m2 = (if \<not> session_already_ended h \<and> \<not> has_active_clients m1 (h_session_id h)
                then snd (end_service_session m1 (h_session_id h))
                else m1)
      in w\<lparr>mgr := m2, handlers := (handlers w)(ws := None)\<rparr>)"

text \<open>\<^verbatim>\<open>manager.transcription_sessions.get(session_id, {}).get("chunks_processed", 0)\<close>\<close>

definition reported_chunks :: "manager \<Rightarrow> string \<Rightarrow> int" where
  "reported_chunks m session_id =
     (case transcription_sessions m session_id of
        None \<Rightarrow> 0
      | Some info \<Rightarrow> chunks_processed info)"

text \<open>One received message (lines 305-414).\<close>

definition handle_message :: "world \<Rightarrow> websocket \<Rightarrow> client_message \<Rightarrow> bool \<Rightarrow> world" where
  "handle_message w ws msg raises =
     (case handlers w ws of
        None \<Rightarrow> w
      | Some h \<Rightarrow>
          (case msg of
             AudioChunk audio_data audio_bytes orig_chunk_id fin \<Rightarrow>
               (case handle_audio_chunk (mgr w) h audio_data audio_bytes orig_chunk_id fin raises of
                  (None, m1) \<Rightarrow> w\<lparr>mgr := m1\<rparr>
                | (Some e, m1) \<Rightarrow>
                    send_personal_message (w\<lparr>mgr := m1\<rparr>) (ErrorMessage (ExceptionStr e))
                      (h_session_id h) (Some (h_client_id h)))
           | EndSession \<Rightarrow>
               (let (ended, m1) = end_service_session (mgr w) (h_session_id h);
                    n = reported_chunks m1 (h_session_id h);
                    w1 = send_personal_message (w\<lparr>mgr := m1\<rparr>) (SessionEnded (h_session_id h) n)
                           (h_session_id h) None
                in finish w1 ws (h\<lparr>session_already_ended := session_already_ended h \<or> ended\<rparr>))
           | Ping \<Rightarrow> send_personal_message w Pong (h_session_id h) (Some (h_client_id h))
           | OtherType \<Rightarrow> w
           | InvalidJson \<Rightarrow>
               send_personal_message w (ErrorMessage InvalidJsonFormat)
                 (h_session_id h) (Some (h_client_id h))))"

text \<open>\<^verbatim>\<open>receive_text\<close> raises WebSocketDisconnect: the endpoint goes to its \<^verbatim>\<open>finally\<close> block.\<close>

definition ws_close :: "world \<Rightarrow> websocket \<Rightarrow> world" where
  "ws_close w ws = (case handlers w ws of None \<Rightarrow> w | Some h \<Rightarrow> finish w ws h)"

text \<open>
  The start of the endpoint (lines 194-301) with the query parameters already parsed. An
  exception of \<^verbatim>\<open>connect\<close> leaves the endpoint before its \<^verbatim>\<open>try\<close>.
\<close>

definition ws_connect :: "world \<Rightarrow> websocket \<Rightarrow> string \<Rightarrow> int option \<Rightarrow> stream_request \<Rightarrow> world" where
  "ws_connect w ws session_id channel rq =
     (if handlers w ws \<noteq> None then w
      else case connect (mgr w) ws session_id channel of
             (Inl e, m1) \<Rightarrow> w\<lparr>mgr := m1\<rparr>
           | (Inr client_id, m1) \<Rightarrow>
               (let client_channel = get_client_channel m1 session_id client_id;
                    m2 = (case get_service m1 session_id of
                            None \<Rightarrow> set_service m1 session_id (snd (start_session new_service))
                          | Some svc \<Rightarrow> m1);
                    h = \<lparr>h_session_id = session_id, h_client_id = client_id,
                         h_client_channel = client_channel, h_request = rq,
                         session_already_ended = False\<rparr>
                in send_personal_message (w\<lparr>mgr := m2, handlers := (handlers w)(ws \<mapsto> h)\<rparr>)
                     (ConnectionEstablished session_id rq client_channel)
                     session_id (Some client_id)))"

text \<open>\<^verbatim>\<open>end_stream_session\<close> (lines 998-1011), the management call.\<close>

definition end_stream_session :: "world \<Rightarrow> string \<Rightarrow> world" where
  "end_stream_session w session_id = w\<lparr>mgr := snd (end_service_session (mgr w) session_id)\<rparr>"

text \<open>
  The result callback (lines 235-285). The dictionary it receives has optional keys; the
  timestamp is missing, a datetime, or a string together with what
  \<^verbatim>\<open>datetime.fromisoformat\<close> makes of it (None: it raises).
\<close>

datatype ts_in = TsAbsent | TsValue timestamp | TsString "timestamp option"

record callback_result =
  cr_text :: "string option"
  cr_chunk_id :: "string option"
  cr_timestamp :: ts_in
  cr_speaker_id :: "string option"
  cr_is_final :: "bool option"
  cr_confidence :: "score option"
  cr_success :: "bool option"

text \<open>
  \<^verbatim>\<open>int(s)\<close> for ASCII text: surrounding whitespace, an optional sign, decimal digits with
  single underscores between them.
\<close>

definition is_digit :: "char \<Rightarrow> bool" where
  "is_digit c = (c \<in> set ''0123456789'')"

fun valid_digits :: "string \<Rightarrow> bool" where
  "valid_digits [] = False"
| "valid_digits [c] = is_digit c"
| "valid_digits (c # d # ds) =
     (is_digit c \<and> (if d = CHR ''_'' then ds \<noteq> [] \<and> valid_digits ds else valid_digits (d # ds)))"

definition dec_val :: "string \<Rightarrow> nat" where
  "dec_val ds = foldl (\<lambda>a c. 10 * a + (of_char c - 48)) 0 (filter is_digit ds)"

definition py_int :: "string \<Rightarrow> int option" where
  "py_int s =
     (case strip s of
        [] \<Rightarrow> None
      | c # cs \<Rightarrow>
          if c = CHR ''+'' then (if valid_digits cs then Some (int (dec_val cs)) else None)
          else if c = CHR ''-'' then (if valid_digits cs then Some (- int (dec_val cs)) else None)
          else if valid_digits (c # cs) then Some (int (dec_val (c # cs))) else None)"

definition channel_of_chunk_id :: "manager \<Rightarrow> string \<Rightarrow> string \<Rightarrow> int option" where
  "channel_of_chunk_id m session_id chunk_id_local =
     (let ch = (if take 2 chunk_id_local = ''ch'' \<and> CHR ''-'' \<in> set chunk_id_local
                then py_int (drop 2 (takeWhile (\<lambda>c. c \<noteq> CHR ''-'') chunk_id_local))
                else None)
      in case ch of
           None \<Rightarrow> resolve_channel_for_chunk m session_id chunk_id_local
         | Some c \<Rightarrow> Some c)"

definition send_transcription_result ::
  "world \<Rightarrow> string \<Rightarrow> string \<Rightarrow> bool \<Rightarrow> score option \<Rightarrow> string option \<Rightarrow> timestamp \<Rightarrow> string \<Rightarrow> world" where
  "send_transcription_result w cid txt fin conf speaker ts session_id =
     send_personal_message w (TranscriptionResultMsg cid txt fin conf speaker ts) session_id None"

definition result_callback :: "world \<Rightarrow> string \<Rightarrow> callback_result \<Rightarrow> timestamp \<Rightarrow> world" where
  "result_callback w cb_session_id result now =
     (let txt = strip (case cr_text result of None \<Rightarrow> [] | Some t \<Rightarrow> t)
      in if txt = [] then w
         else case (case cr_timestamp result of
                      TsAbsent \<Rightarrow> Some now
                    | TsValue t \<Rightarrow> Some t
                    | TsString parsed \<Rightarrow> parsed) of
                None \<Rightarrow> w
              | Some ts \<Rightarrow>
                  (let cid = (case cr_chunk_id result of None \<Rightarrow> [] | Some c \<Rightarrow> c);
                       speaker =
                         (if truthy (cr_speaker_id result) then cr_speaker_id result
                          else case channel_of_chunk_id (mgr w) cb_session_id cid of
                                 None \<Rightarrow> cr_speaker_id result
                               | Some ch \<Rightarrow> Some (''channel_'' @ str_int ch));
                       fin = (case cr_is_final result of None \<Rightarrow> False | Some b \<Rightarrow> b);
                       w1 = w\<lparr>mgr := add_transcription_result (mgr w) cb_session_id
                                \<lparr>chunk_id = cid, timestamp = ts, rtext = txt, is_final = fin,
                                 confidence = cr_confidence result, speaker_id = speaker,
                                 success = True\<rparr>\<rparr>
                   in send_transcription_result w1 cid txt fin (cr_confidence result) speaker ts
                        cb_session_id))"

text \<open>
  A record of the adapter handed to the callback as it is: the callback's keys that the
  adapter's dictionaries have are \<^verbatim>\<open>text\<close>, \<^verbatim>\<open>confidence\<close> and \<^verbatim>\<open>is_final\<close>; an error record
  has none of them.
\<close>

fun as_callback_result :: "adapter_record \<Rightarrow> callback_result" where
  "as_callback_result (Recognized kind txt conf ws fin) =
     \<lparr>cr_text = Some txt, cr_chunk_id = None, cr_timestamp = TsAbsent, cr_speaker_id = None,
      cr_is_final = Some fin, cr_confidence = Some conf, cr_success = None\<rparr>"
| "as_callback_result (ErrorRecord err det) =
     \<lparr>cr_text = None, cr_chunk_id = None, cr_timestamp = TsAbsent, cr_speaker_id = None,
      cr_is_final = None, cr_confidence = None, cr_success = None\<rparr>"

text \<open>Events of the gateway and runs.\<close>

datatype event =
    WsConnect websocket string "int option" stream_request
  | WsMessage websocket client_message bool
  | WsClose websocket
  | EndStreamSession string
  | ServiceResult string callback_result timestamp

fun step :: "world \<Rightarrow> event \<Rightarrow> world" where
  "step w (WsConnect ws session_id channel rq) = ws_connect w ws session_id channel rq"
| "step w (WsMessage ws msg raises) = handle_message w ws msg raises"
| "step w (WsClose ws) = ws_close w ws"
| "step w (EndStreamSession session_id) = end_stream_session w session_id"
| "step w (ServiceResult session_id result now) = result_callback w session_id result now"

definition run :: "world \<Rightarrow> event list \<Rightarrow> world" where
  "run w evs = foldl step w evs"

definition rq0 :: stream_request where
  "rq0 = \<lparr>rq_provider = ''yandex'', rq_language = ''ru-RU'', rq_enable_diarization = True,
          rq_sample_rate = 16000\<rparr>"

text \<open>
  The state of a service object of the modelled service: running and never ended, or ended
  with its shutdown done once.
\<close>

definition service_inv :: "service \<Rightarrow> bool" where
  "service_inv svc =
     (if svc_active svc then svc_end_calls svc = 0 \<and> svc_shutdowns svc = 0
      else 1 \<le> svc_end_calls svc \<and> svc_shutdowns svc = 1)"

definition services_inv :: "manager \<Rightarrow> bool" where
  "services_inv m = (\<forall>sid svc. services m sid = Some svc \<longrightarrow> service_inv svc)"

text \<open>
  An inbound message is counted when it is an \<^verbatim>\<open>audio_chunk\<close> whose audio field is not
  None and decodes, and the chunk reaches the service and the counter without an exception.
\<close>

definition counted :: "manager \<Rightarrow> connection \<Rightarrow> client_message \<Rightarrow> bool \<Rightarrow> bool" where
  "counted m h msg raises =
     (case msg of
        AudioChunk audio_data audio_bytes orig_chunk_id fin \<Rightarrow>
          (case py_or audio_data audio_bytes of
             None \<Rightarrow> False
           | Some raw \<Rightarrow>
               fromhex raw \<noteq> None \<and> transcription_sessions m (h_session_id h) \<noteq> None \<and>
               h_client_channel h \<noteq> None \<and> get_service m (h_session_id h) \<noteq> None \<and> \<not> raises)
      | _ \<Rightarrow> False)"

text \<open>The records of the adapter reaching the callback of a session one after the other.\<close>

definition deliver :: "world \<Rightarrow> string \<Rightarrow> adapter_record list \<Rightarrow> timestamp \<Rightarrow> world" where
  "deliver w session_id records now =
     foldl (\<lambda>w r. result_callback w session_id (as_callback_result r) now) w records"

fun is_error_message :: "websocket \<times> out_message \<Rightarrow> bool" where
  "is_error_message (ws, ErrorMessage e) = True"
| "is_error_message _ = False"

section \<open>Evaluation of concrete runs\<close>

text \<open>Unfolding these definitions evaluates a run of the registry and of the handler.\<close>

lemmas gateway_eval =
  run_def ws_connect_def handle_message_def ws_close_def end_stream_session_def finish_def
  end_service_session_def send_personal_message_def connect_def disconnect_def
  init_containers_def init_world_def init_manager_def get_client_channel_def get_service_def
  set_service_def start_session_def new_service_def end_session_def has_active_clients_def
  reported_chunks_def client_id_of_def str_nat.simps first_free.simps digit_char_def Let_def
  handle_audio_chunk_def map_chunk_channel_py_def map_chunk_channel_def forward_chunk_def
  increment_chunks_def process_audio_chunk_def py_or_def truthy_def channel_str_def str_int_def
  rq0_def

section \<open>Properties of the registry\<close>


lemma digit_char_inj: "a < 10 \<Longrightarrow> b < 10 \<Longrightarrow> digit_char a = digit_char b \<Longrightarrow> a = b"
proof -
  assume a: "a < 10" and b: "b < 10" and e: "digit_char a = digit_char b"
  have d: "distinct ''0123456789''" by simp
  have "a < length ''0123456789''" "b < length ''0123456789''" using a b by simp_all
  with d e show "a = b" unfolding digit_char_def by (simp only: nth_eq_iff_index_eq)
qed

lemma str_nat_nonempty: "str_nat n \<noteq> []"
  by (subst str_nat.simps) simp

lemma str_nat_length_ge2: "10 \<le> n \<Longrightarrow> 2 \<le> length (str_nat n)"
proof -
  assume "10 \<le> n"
  then have "str_nat n = str_nat (n div 10) @ [digit_char (n mod 10)]"
    by (subst str_nat.simps) simp
  moreover have "1 \<le> length (str_nat (n div 10))"
    using str_nat_nonempty [of "n div 10"] by (cases "str_nat (n div 10)") auto
  ultimately show ?thesis by simp
qed

lemma str_nat_inj: "str_nat n = str_nat m \<Longrightarrow> n = m"
proof (induction n arbitrary: m rule: str_nat.induct)
  case (1 n)
  show ?case
  proof (cases "n < 10")
    case True
    then have n1: "str_nat n = [digit_char n]" by (subst str_nat.simps) simp
    show ?thesis
    proof (cases "m < 10")
      case mT: True
      then have "str_nat m = [digit_char m]" by (subst str_nat.simps) simp
      with n1 1(2) have "digit_char n = digit_char m" by simp
      then show ?thesis using True mT by (rule digit_char_inj [rotated 2])
    next
      case False
      then have "2 \<le> length (str_nat m)" by (simp add: str_nat_length_ge2)
      with n1 1(2) show ?thesis by simp
    qed
  next
    case False
    then have n1: "str_nat n = str_nat (n div 10) @ [digit_char (n mod 10)]"
      by (subst str_nat.simps) simp
    show ?thesis
    proof (cases "m < 10")
      case True
      then have "str_nat m = [digit_char m]" by (subst str_nat.simps) simp
      moreover have "2 \<le> length (str_nat n)" using False by (simp add: str_nat_length_ge2)
      ultimately show ?thesis using 1(2) by simp
    next
      case mF: False
      then have "str_nat m = str_nat (m div 10) @ [digit_char (m mod 10)]"
        by (subst str_nat.simps) simp
      with n1 1(2) have e1: "str_nat (n div 10) = str_nat (m div 10)"
        and e2: "digit_char (n mod 10) = digit_char (m mod 10)" by simp_all
      have "n div 10 = m div 10" using 1(1) [OF False e1] .
      moreover have "n mod 10 = m mod 10" by (rule digit_char_inj [OF _ _ e2]) simp_all
      ultimately show ?thesis by (metis div_mult_mod_eq)
    qed
  qed
qed

lemma client_id_of_inj: "client_id_of a = client_id_of b \<Longrightarrow> a = b"
  by (simp add: client_id_of_def str_nat_inj)

lemma first_free_spec:
  "first_free used ch \<notin> set used \<and> ch \<le> first_free used ch \<and>
   (\<forall>x. ch \<le> x \<and> x < first_free used ch \<longrightarrow> x \<in> set used)"
proof (induction used ch rule: first_free.induct)
  case (1 used ch)
  show ?case
  proof (cases "ch \<in> set used")
    case True
    then have e: "first_free used ch = first_free used (ch + 1)"
      by (subst first_free.simps) simp
    have ih: "first_free used (ch + 1) \<notin> set used \<and> ch + 1 \<le> first_free used (ch + 1) \<and>
      (\<forall>x. ch + 1 \<le> x \<and> x < first_free used (ch + 1) \<longrightarrow> x \<in> set used)"
      using 1 [OF True] .
    have "\<And>x. ch \<le> x \<Longrightarrow> x < first_free used (ch + 1) \<Longrightarrow> x \<in> set used"
    proof -
      fix x assume a: "ch \<le> x" "x < first_free used (ch + 1)"
      show "x \<in> set used"
      proof (cases "x = ch")
        case True with \<open>ch \<in> set used\<close> show ?thesis by simp
      next
        case False with a have "ch + 1 \<le> x" by simp
        with ih a show ?thesis by blast
      qed
    qed
    with ih e show ?thesis by auto
  next
    case False
    then have "first_free used ch = ch" by (subst first_free.simps) simp
    with False show ?thesis by auto
  qed
qed

lemma first_free_range: "set used = {1..int k} \<Longrightarrow> first_free used 1 = int k + 1"
proof -
  assume u: "set used = {1..int k}"
  let ?r = "first_free used 1"
  have a: "?r \<notin> set used" and b: "1 \<le> ?r" and c: "\<forall>x. 1 \<le> x \<and> x < ?r \<longrightarrow> x \<in> set used"
    using first_free_spec [of used 1] by blast+
  from a b u have "int k < ?r" by auto
  moreover have "\<not> int k + 1 < ?r"
  proof
    assume "int k + 1 < ?r"
    with c have "int k + 1 \<in> set used" by simp
    with u show False by simp
  qed
  ultimately show ?thesis by simp
qed


lemma update_fresh: "k \<notin> fst ` set al \<Longrightarrow> AList.update k v al = al @ [(k, v)]"
  by (induction al) auto

lemma init_containers_present:
  "active_connections m sid \<noteq> None \<Longrightarrow>
   active_connections (init_containers m sid) sid = active_connections m sid \<and>
   client_channels (init_containers m sid) sid = client_channels m sid"
  by (auto simp: init_containers_def Let_def)

lemma init_containers_absent:
  "active_connections m sid = None \<Longrightarrow>
   active_connections (init_containers m sid) sid = Some [] \<and>
   client_channels (init_containers m sid) sid = Some []"
  by (simp add: init_containers_def Let_def)

lemma client_id_fresh: "client_id_of (Suc k) \<notin> client_id_of ` {1..<Suc k}"
proof
  assume "client_id_of (Suc k) \<in> client_id_of ` {1..<Suc k}"
  then obtain j where "j \<in> {1..<Suc k}" "client_id_of (Suc k) = client_id_of j" by blast
  then show False using client_id_of_inj [of "Suc k" j] by simp
qed

lemma connect_step_aux:
  assumes ac: "active_connections (init_containers m sid) sid = Some conns"
    and cc: "client_channels (init_containers m sid) sid = Some chans"
    and k1: "map fst conns = map client_id_of [1..<Suc k]"
    and k2: "chans = map (\<lambda>j. (client_id_of j, int j)) [1..<Suc k]"
  shows "fst (connect m ws sid None) = Inr (client_id_of (Suc k)) \<and>
         connected_upto (snd (connect m ws sid None)) sid (Suc k) \<and>
         get_client_channel (snd (connect m ws sid None)) sid (client_id_of (Suc k)) = Some (int (Suc k))"
proof -
  have len: "length conns = k"
    using k1 by (metis length_map length_upt diff_Suc_1)
  have vals: "set (map snd chans) = {1..int k}"
  proof -
    have "map snd chans = map int [1..<Suc k]" using k2 by (simp add: comp_def)
    then have "set (map snd chans) = int ` {1..<Suc k}" by (simp only: set_map set_upt)
    also have "\<dots> = {1..int k}"
    proof (rule set_eqI)
      fix x show "x \<in> int ` {1..<Suc k} \<longleftrightarrow> x \<in> {1..int k}"
      proof
        assume "x \<in> int ` {1..<Suc k}" then show "x \<in> {1..int k}" by auto
      next
        assume "x \<in> {1..int k}"
        then have "nat x \<in> {1..<Suc k}" "int (nat x) = x" by auto
        then show "x \<in> int ` {1..<Suc k}" by (metis imageI)
      qed
    qed
    finally show ?thesis .
  qed
  have ff: "first_free (map snd chans) 1 = int (Suc k)"
    using first_free_range [OF vals] by simp
  have f1: "client_id_of (Suc k) \<notin> fst ` set conns"
    using client_id_fresh [of k] k1 by (metis set_map set_upt)
  have "map fst chans = map client_id_of [1..<Suc k]"
    unfolding k2 by (simp only: map_map comp_def fst_conv)
  then have f2: "client_id_of (Suc k) \<notin> fst ` set chans"
    using client_id_fresh [of k] by (metis set_map set_upt)
  have u1: "AList.update (client_id_of (Suc k)) ws conns = conns @ [(client_id_of (Suc k), ws)]"
    by (rule update_fresh [OF f1])
  have u2: "AList.update (client_id_of (Suc k)) (int (Suc k)) chans = chans @ [(client_id_of (Suc k), int (Suc k))]"
    by (rule update_fresh [OF f2])
  have c: "connect m ws sid None =
    (Inr (client_id_of (Suc k)),
     (init_containers m sid)\<lparr>active_connections := (active_connections (init_containers m sid))(sid \<mapsto>
          conns @ [(client_id_of (Suc k), ws)]),
        client_channels := (client_channels (init_containers m sid))(sid \<mapsto>
          chans @ [(client_id_of (Suc k), int (Suc k))])\<rparr>)"
    unfolding connect_def Let_def using ac cc len ff u1 u2 by simp
  have m1: "map_of (chans @ [(client_id_of (Suc k), int (Suc k))]) (client_id_of (Suc k)) = Some (int (Suc k))"
    using f2 by (simp add: map_add_def map_of_eq_None_iff [THEN iffD2])
  show ?thesis
    unfolding c using k1 k2 m1 by (simp add: connected_upto_def get_client_channel_def)
qed

lemma connect_first:
  assumes "active_connections m sid = None"
  shows "fst (connect m ws sid None) = Inr (client_id_of (Suc 0)) \<and>
         connected_upto (snd (connect m ws sid None)) sid (Suc 0) \<and>
         get_client_channel (snd (connect m ws sid None)) sid (client_id_of (Suc 0)) = Some (int (Suc 0))"
  using init_containers_absent [OF assms] by (intro connect_step_aux [where conns = "[]" and chans = "[]"]) simp_all

lemma connect_next:
  assumes "connected_upto m sid k"
  shows "fst (connect m ws sid None) = Inr (client_id_of (Suc k)) \<and>
         connected_upto (snd (connect m ws sid None)) sid (Suc k) \<and>
         get_client_channel (snd (connect m ws sid None)) sid (client_id_of (Suc k)) = Some (int (Suc k))"
proof -
  from assms obtain conns chans where a: "active_connections m sid = Some conns"
    "client_channels m sid = Some chans" "map fst conns = map client_id_of [1..<Suc k]"
    "chans = map (\<lambda>j. (client_id_of j, int j)) [1..<Suc k]"
    unfolding connected_upto_def by blast
  have "active_connections m sid \<noteq> None" using a by simp
  from init_containers_present [OF this] a
  show ?thesis by (intro connect_step_aux [where conns = conns and chans = chans]) simp_all
qed

lemma connect_all_from:
  "connected_upto m sid k \<Longrightarrow>
   fst (connect_all m sid wss) = map (\<lambda>j. Inr (client_id_of j, Some (int j))) [Suc k..<Suc k + length wss]"
proof (induction wss arbitrary: m k)
  case Nil
  then show ?case by simp
next
  case (Cons ws wss)
  from connect_next [OF Cons.prems, of ws]
  obtain m' where c: "connect m ws sid None = (Inr (client_id_of (Suc k)), m')"
    and i: "connected_upto m' sid (Suc k)"
    and g: "get_client_channel m' sid (client_id_of (Suc k)) = Some (int (Suc k))"
    by (cases "connect m ws sid None") auto
  have ih: "fst (connect_all m' sid wss) = map (\<lambda>j. Inr (client_id_of j, Some (int j))) [Suc (Suc k)..<Suc (Suc k) + length wss]"
    by (rule Cons.IH [OF i])
  have "fst (connect_all m sid (ws # wss)) = Inr (client_id_of (Suc k), Some (int (Suc k))) # fst (connect_all m' sid wss)"
    using c g by (simp add: split_beta)
  also have "\<dots> = map (\<lambda>j. Inr (client_id_of j, Some (int j))) [Suc k..<Suc k + length (ws # wss)]"
    unfolding ih by (subst (2) upt_rec) (simp del: upt_Suc)
  finally show ?case .
qed

lemma connect_all_fresh:
  assumes "active_connections m session_id = None"
  shows "fst (connect_all m session_id wss) =
           map (\<lambda>j. Inr (client_id_of j, Some (int j))) [1..<Suc (length wss)]"
proof (cases wss)
  case Nil
  then show ?thesis by simp
next
  case (Cons ws rest)
  from connect_first [OF assms, of ws]
  obtain m' where c: "connect m ws session_id None = (Inr (client_id_of (Suc 0)), m')"
    and i: "connected_upto m' session_id (Suc 0)"
    and g: "get_client_channel m' session_id (client_id_of (Suc 0)) = Some (int (Suc 0))"
    by (cases "connect m ws session_id None") auto
  have "fst (connect_all m session_id (ws # rest)) =
      Inr (client_id_of (Suc 0), Some (int (Suc 0))) # fst (connect_all m' session_id rest)"
    using c g by (simp add: split_beta)
  also have "\<dots> = map (\<lambda>j. Inr (client_id_of j, Some (int j))) [1..<Suc (length (ws # rest))]"
    unfolding connect_all_from [OF i] by (subst (2) upt_rec) (simp del: upt_Suc)
  finally show ?thesis using Cons by simp
qed


text \<open>
  C1. When \<open>N\<close> clients connect to a session that has no connections yet, none of them
  requesting a channel and none disconnecting in between, the channels assigned are
  \<open>1, 2, .., N\<close> in the order of the connects: every number of \<open>{1..N}\<close> exactly once.
\<close>

theorem connect_assigns_channels_1_to_N:
  assumes "active_connections m session_id = None"
  shows "assigned_channels (fst (connect_all m session_id wss)) =
           map (\<lambda>j. Some (int j)) [1..<Suc (length wss)]"
  unfolding connect_all_fresh [OF assms] assigned_channels_def by simp

theorem connect_assigns_channels_1_to_N_witness:
  "active_connections init_manager ''s'' = None \<and>
   assigned_channels (fst (connect_all init_manager ''s'' [10, 11, 12])) = [Some 1, Some 2, Some 3]"
  using connect_assigns_channels_1_to_N [of init_manager "''s''" "[10, 11, 12]"]
  by (simp add: init_manager_def)

text \<open>
  C6. Client ids are not unique along connects and disconnects: the id is made from the
  number of clients now connected (\<^verbatim>\<open>len(...) + 1\<close>), so after \<^verbatim>\<open>c1\<close> of two clients left,
  the next connect returns \<^verbatim>\<open>c2\<close> again and replaces the websocket and the channel
  registered for the client \<^verbatim>\<open>c2\<close> that is still connected.
\<close>

theorem connect_reuses_live_client_id: "let (r1, m1) = connect init_manager 1 ''s'' None;
       (r2, m2) = connect m1 2 ''s'' None;
       m3 = disconnect m2 ''s'' (Some ''c1'');
       (r3, m4) = connect m3 3 ''s'' None
   in r1 = Inr ''c1'' \<and> r2 = Inr ''c2'' \<and> active_connections m3 ''s'' = Some [(''c2'', 2)] \<and>
      r3 = Inr ''c2'' \<and> active_connections m4 ''s'' = Some [(''c2'', 3)] \<and>
      client_channels m3 ''s'' = Some [(''c2'', 2)] \<and> client_channels m4 ''s'' = Some [(''c2'', 1)]"
  by (simp add: connect_def init_containers_def disconnect_def client_id_of_def str_nat.simps
      first_free.simps digit_char_def Let_def init_manager_def)

lemma disconnect_chunk_map: "chunk_channel_map (disconnect m session_id client_id) = chunk_channel_map m"
  by (simp add: disconnect_def Let_def split: option.splits)

lemma add_result_chunk_map: "chunk_channel_map (add_transcription_result m session_id r) = chunk_channel_map m"
  by (simp add: add_transcription_result_def Let_def split: option.splits)

lemma resolve_after_map: "resolve_channel_for_chunk (map_chunk_channel m s k c) s k = Some c"
  by (simp add: resolve_channel_for_chunk_def map_chunk_channel_def Let_def AList.update_conv' split: option.splits)

lemma resolve_map_other:
  "s' \<noteq> s \<or> k' \<noteq> k \<Longrightarrow>
   resolve_channel_for_chunk (map_chunk_channel m s' k' c') s k = resolve_channel_for_chunk m s k"
  by (auto simp add: resolve_channel_for_chunk_def map_chunk_channel_def Let_def AList.update_conv' split: option.splits)

lemma init_containers_chunk_map:
  "session_id \<noteq> s \<or> active_connections m s \<noteq> None \<Longrightarrow>
   chunk_channel_map (init_containers m session_id) s = chunk_channel_map m s"
  by (auto simp add: init_containers_def Let_def)

lemma connect_chunk_map:
  "session_id \<noteq> s \<or> active_connections m s \<noteq> None \<Longrightarrow>
   chunk_channel_map (snd (connect m ws session_id channel)) s = chunk_channel_map m s"
  using init_containers_chunk_map [of session_id s m]
  by (simp add: connect_def Let_def split: option.splits)

lemma keeps_session_resolve:
  assumes "resolve_channel_for_chunk m s k = Some c" and "keeps_session s k c m x"
  shows "resolve_channel_for_chunk (apply_op m x) s k = Some c"
proof (cases x)
  case (Connect ws session_id channel)
  with assms(2) have "session_id \<noteq> s \<or> active_connections m s \<noteq> None" by auto
  from connect_chunk_map [OF this] assms(1) Connect show ?thesis
    by (simp add: resolve_channel_for_chunk_def)
next
  case (Disconnect session_id client_id)
  with assms(1) show ?thesis by (simp add: resolve_channel_for_chunk_def disconnect_chunk_map)
next
  case (MapChunk session_id cid channel)
  show ?thesis
  proof (cases "session_id = s \<and> cid = k")
    case True
    with assms(2) MapChunk have "channel = c" by simp
    with True MapChunk show ?thesis by (simp add: resolve_after_map)
  next
    case False
    then have "session_id \<noteq> s \<or> cid \<noteq> k" by blast
    from resolve_map_other [OF this] assms(1) MapChunk show ?thesis by simp
  qed
next
  case (AddResult session_id r)
  with assms(1) show ?thesis by (simp add: resolve_channel_for_chunk_def add_result_chunk_map)
qed


text \<open>
  What does hold: after \<open>map_chunk_channel m s k c\<close>, \<open>resolve_channel_for_chunk\<close> returns
  \<open>c\<close> for \<open>s\<close> and \<open>k\<close> after any further registry calls (disconnects of any client or of
  the whole session, connects, result appends, mappings of other chunks) among which no
  connect finds the session without an entry in \<^verbatim>\<open>active_connections\<close>. No disconnect changes
  the chunk map (lemma \<open>disconnect_chunk_map\<close>).
\<close>

theorem chunk_mapping_stable:
  assumes "session_continues s k c (map_chunk_channel m s k c) ops"
  shows "resolve_channel_for_chunk (foldl apply_op (map_chunk_channel m s k c) ops) s k = Some c"
proof -
  have "\<And>m'. resolve_channel_for_chunk m' s k = Some c \<Longrightarrow> session_continues s k c m' ops \<Longrightarrow>
     resolve_channel_for_chunk (foldl apply_op m' ops) s k = Some c"
  proof (induction ops)
    case Nil
    then show ?case by simp
  next
    case (Cons x xs)
    from Cons.prems have k: "keeps_session s k c m' x" and r: "session_continues s k c (apply_op m' x) xs"
      by simp_all
    have "resolve_channel_for_chunk (apply_op m' x) s k = Some c"
      by (rule keeps_session_resolve [OF Cons.prems(1) k])
    from Cons.IH [OF this r] show ?case by simp
  qed
  from this [OF resolve_after_map assms] show ?thesis .
qed

theorem chunk_mapping_stable_witness:
  "session_continues ''s'' ''ch1-a'' 1
     (map_chunk_channel (snd (connect init_manager 7 ''s'' None)) ''s'' ''ch1-a'' 1)
     [Connect 8 ''s'' None, Disconnect ''s'' (Some ''c1''), AddResult ''s'' demo_result,
      MapChunk ''s'' ''ch2-b'' 2, Disconnect ''s'' (Some ''c2''), Disconnect ''s'' None] \<and>
   resolve_channel_for_chunk
     (foldl apply_op (map_chunk_channel (snd (connect init_manager 7 ''s'' None)) ''s'' ''ch1-a'' 1)
        [Connect 8 ''s'' None, Disconnect ''s'' (Some ''c1''), AddResult ''s'' demo_result,
         MapChunk ''s'' ''ch2-b'' 2, Disconnect ''s'' (Some ''c2''), Disconnect ''s'' None])
     ''s'' ''ch1-a'' = Some 1"
  using chunk_mapping_stable [of "''s''" "''ch1-a''" 1 "snd (connect init_manager 7 ''s'' None)"
     "[Connect 8 ''s'' None, Disconnect ''s'' (Some ''c1''), AddResult ''s'' demo_result,
      MapChunk ''s'' ''ch2-b'' 2, Disconnect ''s'' (Some ''c2''), Disconnect ''s'' None]"]
  by (simp add: connect_def init_containers_def disconnect_def client_id_of_def str_nat.simps
      first_free.simps digit_char_def Let_def init_manager_def map_chunk_channel_def
      add_transcription_result_def)




lemma join_space_Cons: "join_space (t # us) = t @ concat (map (\<lambda>u. CHR '' '' # u) us)"
  by (induction us arbitrary: t) simp_all

text \<open>
  C5, as stated, fails: for the log (final "a", partial "x", final "b") the text transcript
  is "a b", not the concatenation "ab" of the final texts.
\<close>

theorem transcript_not_plain_concatenation:
  "get_session_transcript
     (with_results ''s'' [mk_result ''ch1-1'' ''a'' True, mk_result ''ch1-2'' ''x'' False,
        mk_result ''ch1-2'' ''b'' True]) ''s'' ''text''
   \<noteq> Some (TextTranscript (concat (map rtext (filter is_final
       [mk_result ''ch1-1'' ''a'' True, mk_result ''ch1-2'' ''x'' False,
        mk_result ''ch1-2'' ''b'' True]))))"
  by (simp add: get_session_transcript_def get_session_results_def with_results_def
      init_manager_def mk_result_def)

text \<open>
  C5, amended. For a result log with at least one final record, the text transcript is the
  non-empty texts of the records with \<open>is_final\<close>, in arrival order, separated by single
  spaces: the first text, then each further text after a space.
\<close>

theorem transcript_joins_final_texts:
  assumes "session_results m session_id = Some log" and "filter is_final log \<noteq> []"
  shows "get_session_transcript m session_id ''text'' =
     Some (TextTranscript
       (case filter (\<lambda>t. t \<noteq> []) (map rtext (filter is_final log)) of
          [] \<Rightarrow> []
        | t # us \<Rightarrow> t @ concat (map (\<lambda>u. CHR '' '' # u) us)))"
  using assms
  by (simp add: get_session_transcript_def get_session_results_def join_space_Cons split: list.splits)

theorem transcript_joins_final_texts_witness:
  "session_results (with_results ''s'' [mk_result ''ch1-1'' ''a'' True, mk_result ''ch1-2'' ''x'' False,
        mk_result ''ch1-3'' [] True, mk_result ''ch1-2'' ''b'' True]) ''s''
     = Some [mk_result ''ch1-1'' ''a'' True, mk_result ''ch1-2'' ''x'' False,
        mk_result ''ch1-3'' [] True, mk_result ''ch1-2'' ''b'' True] \<and>
   filter is_final [mk_result ''ch1-1'' ''a'' True, mk_result ''ch1-2'' ''x'' False,
        mk_result ''ch1-3'' [] True, mk_result ''ch1-2'' ''b'' True] \<noteq> [] \<and>
   get_session_transcript (with_results ''s'' [mk_result ''ch1-1'' ''a'' True, mk_result ''ch1-2'' ''x'' False,
        mk_result ''ch1-3'' [] True, mk_result ''ch1-2'' ''b'' True]) ''s'' ''text''
     = Some (TextTranscript ''a b'')"
  using transcript_joins_final_texts [of "with_results ''s'' [mk_result ''ch1-1'' ''a'' True, mk_result ''ch1-2'' ''x'' False,
        mk_result ''ch1-3'' [] True, mk_result ''ch1-2'' ''b'' True]" "''s''"
        "[mk_result ''ch1-1'' ''a'' True, mk_result ''ch1-2'' ''x'' False,
        mk_result ''ch1-3'' [] True, mk_result ''ch1-2'' ''b'' True]"]
  by (simp add: with_results_def init_manager_def mk_result_def)

text \<open>
  C9, as stated, fails for the transcript query: a session that exists with no final result
  (an empty log, or partial results only) gets the same outcome None as a session id that
  does not exist.
\<close>

theorem transcript_missing_equals_empty:
  "session_results (with_results ''s'' [mk_result ''ch1-1'' ''x'' False]) ''s'' = Some [mk_result ''ch1-1'' ''x'' False] \<and>
   session_results (with_results ''s'' [mk_result ''ch1-1'' ''x'' False]) ''missing'' = None \<and>
   get_session_transcript (with_results ''s'' [mk_result ''ch1-1'' ''x'' False]) ''s'' ''text'' =
   get_session_transcript (with_results ''s'' [mk_result ''ch1-1'' ''x'' False]) ''missing'' ''text'' \<and>
   get_session_transcript (with_results ''s'' []) ''s'' ''text'' =
   get_session_transcript (with_results ''s'' []) ''missing'' ''text''"
  by (simp add: get_session_transcript_def get_session_results_def with_results_def
      init_manager_def mk_result_def)

text \<open>
  C9, amended. \<open>get_session_results\<close> returns None exactly for a session id without a
  result log, and the (empty) list for a session whose log is empty. \<open>get_session_transcript\<close>
  returns None for a missing session, for a session without final results and for an
  unknown format alike.
\<close>

theorem results_tell_missing_from_empty:
  "(get_session_results m session_id include_partial = None \<longleftrightarrow> session_results m session_id = None) \<and>
   (session_results m session_id = Some [] \<longrightarrow>
      get_session_results m session_id include_partial = Some []) \<and>
   (get_session_transcript m session_id format_type = None \<longleftrightarrow>
      (case session_results m session_id of
         None \<Rightarrow> True
       | Some log \<Rightarrow> filter is_final log = [] \<or> (format_type \<noteq> ''text'' \<and> format_type \<noteq> ''json'')))"
  by (auto simp add: get_session_transcript_def get_session_results_def split: option.splits)

theorem results_tell_missing_from_empty_witness:
  "session_results (with_results ''s'' []) ''s'' = Some [] \<and>
   get_session_results (with_results ''s'' []) ''s'' False = Some [] \<and>
   get_session_results (with_results ''s'' []) ''missing'' False = None \<and>
   get_session_transcript (with_results ''s'' []) ''s'' ''text'' = None \<and>
   get_session_transcript (with_results ''s'' []) ''missing'' ''text'' = None"
  using results_tell_missing_from_empty [of "with_results ''s'' []" "''s''" False "''text''"]
    results_tell_missing_from_empty [of "with_results ''s'' []" "''missing''" False "''text''"]
  by (simp add: with_results_def init_manager_def)

section \<open>Properties of the upstream adapter\<close>

lemma audio_requests_eq: "audio_requests audio_stream = map Chunk (filter (\<lambda>c. c \<noteq> []) audio_stream)"
  by (induction audio_stream) simp_all

text \<open>
  C8. For every input audio stream the requests offered to the upstream call are exactly
  one configuration request, as the first element, followed by one audio request for each
  non-empty chunk of the input in order, empty chunks being skipped: no audio precedes the
  configuration, the configuration occurs once, everything after it is an audio request and
  no end-of-stream request occurs.
\<close>

theorem request_sequence_config_then_audio:
  "request_generator opts audio_stream =
     SessionOptions opts # map Chunk (filter (\<lambda>c. c \<noteq> []) audio_stream) \<and>
   length (filter is_session_options (request_generator opts audio_stream)) = 1 \<and>
   list_all is_chunk (tl (request_generator opts audio_stream)) \<and>
   Eou \<notin> set (request_generator opts audio_stream)"
proof -
  have a: "filter is_session_options (map Chunk xs) = []" for xs
    by (induction xs) simp_all
  have b: "list_all is_chunk (map Chunk xs)" for xs
    by (induction xs) simp_all
  have c: "Eou \<notin> set (map Chunk xs)" for xs
    by (induction xs) simp_all
  show ?thesis
    unfolding request_generator_def audio_requests_eq using a b c by auto
qed

theorem request_sequence_config_then_audio_witness:
  "request_generator (session_options ''ru-RU'' 16000) [[1, 2], [], [3]] =
     [SessionOptions (session_options ''ru-RU'' 16000), Chunk [1, 2], Chunk [3]]"
  using request_sequence_config_then_audio [of "session_options ''ru-RU'' 16000" "[[1, 2], [], [3]]"]
  by simp

text \<open>
  C7, as stated, fails: with a bearer token and no folder identifier the metadata is built
  without complaint and holds the authorization header alone, so the folder header is not
  mandatory.
\<close>

theorem bearer_without_folder_header:
  "build_auth_metadata \<lparr>yandex_api_key = None, yandex_iam_token = Some ''t1'', yandex_folder_id = None\<rparr>
     = Inr [(''authorization'', ''Bearer t1'')]"
  by (simp add: build_auth_metadata_def truthy_def)

text \<open>
  C7, amended. The API key is preferred when configured; otherwise the bearer token is used,
  together with the folder header when a folder identifier is configured and alone when it
  is not; with neither credential the build fails with ValueError, and the stream yields the
  single record \<^verbatim>\<open>Authorization failed\<close> without opening the channel.
\<close>

theorem auth_metadata_by_configuration:
  "(truthy (yandex_api_key st) \<longrightarrow>
      build_auth_metadata st = Inr [(''authorization'', ''Api-Key '' @ the (yandex_api_key st))]) \<and>
   (\<not> truthy (yandex_api_key st) \<and> truthy (yandex_iam_token st) \<and> truthy (yandex_folder_id st) \<longrightarrow>
      build_auth_metadata st = Inr [(''authorization'', ''Bearer '' @ the (yandex_iam_token st)),
                                    (''x-folder-id'', the (yandex_folder_id st))]) \<and>
   (\<not> truthy (yandex_api_key st) \<and> truthy (yandex_iam_token st) \<and> \<not> truthy (yandex_folder_id st) \<longrightarrow>
      build_auth_metadata st = Inr [(''authorization'', ''Bearer '' @ the (yandex_iam_token st))]) \<and>
   (\<not> truthy (yandex_api_key st) \<and> \<not> truthy (yandex_iam_token st) \<longrightarrow>
      build_auth_metadata st = Inl ValueError \<and>
      recognize_stream True st up audio_stream language sample_rate =
        \<lparr>yielded = [ErrorRecord ''Authorization failed'' (ExceptionText ValueError)],
         requests = [], channel_opened = False, channel_closed = False\<rparr>)"
  by (simp add: build_auth_metadata_def recognize_stream_def)

theorem auth_metadata_by_configuration_witness:
  "build_auth_metadata \<lparr>yandex_api_key = Some ''k1'', yandex_iam_token = Some ''t1'', yandex_folder_id = Some ''f1''\<rparr>
     = Inr [(''authorization'', ''Api-Key k1'')] \<and>
   build_auth_metadata \<lparr>yandex_api_key = Some [], yandex_iam_token = Some ''t1'', yandex_folder_id = Some ''f1''\<rparr>
     = Inr [(''authorization'', ''Bearer t1''), (''x-folder-id'', ''f1'')] \<and>
   build_auth_metadata \<lparr>yandex_api_key = None, yandex_iam_token = Some ''t1'', yandex_folder_id = Some []\<rparr>
     = Inr [(''authorization'', ''Bearer t1'')] \<and>
   build_auth_metadata \<lparr>yandex_api_key = None, yandex_iam_token = None, yandex_folder_id = Some ''f1''\<rparr>
     = Inl ValueError \<and>
   recognize_stream True \<lparr>yandex_api_key = None, yandex_iam_token = None, yandex_folder_id = Some ''f1''\<rparr>
       demo_upstream [[1, 2]] ''ru'' 16000 =
     \<lparr>yielded = [ErrorRecord ''Authorization failed'' (ExceptionText ValueError)],
      requests = [], channel_opened = False, channel_closed = False\<rparr>"
  using auth_metadata_by_configuration [of "\<lparr>yandex_api_key = Some ''k1'', yandex_iam_token = Some ''t1'', yandex_folder_id = Some ''f1''\<rparr>"]
    auth_metadata_by_configuration [of "\<lparr>yandex_api_key = Some [], yandex_iam_token = Some ''t1'', yandex_folder_id = Some ''f1''\<rparr>"]
    auth_metadata_by_configuration [of "\<lparr>yandex_api_key = None, yandex_iam_token = Some ''t1'', yandex_folder_id = Some []\<rparr>"]
    auth_metadata_by_configuration [of "\<lparr>yandex_api_key = None, yandex_iam_token = None, yandex_folder_id = Some ''f1''\<rparr>"
       demo_upstream "[[1, 2]]" "''ru''" 16000]
  by (simp add: truthy_def)

lemma process_single_response_no_error: "\<not> (\<exists>r \<in> set (process_single_response response). is_error_record r)"
  by (auto simp add: process_single_response_def recognized_alternatives_def)

lemma recognize_stream_rpc_error:
  assumes "build_auth_metadata st = Inr md" and "connect_failure up = None"
    and "stream_failure up = Some (RpcError code details)"
  shows "yielded (recognize_stream True st up audio_stream language sample_rate) =
           concat (map process_single_response (responses up)) @
           [ErrorRecord (''gRPC error: '' @ code) (Detail details)] \<and>
         length (filter is_error_record
           (yielded (recognize_stream True st up audio_stream language sample_rate))) = 1"
proof -
  have "filter is_error_record (concat (map process_single_response rs)) = []" for rs
    using process_single_response_no_error by (induction rs) (auto simp add: filter_empty_conv)
  then show ?thesis using assms by (simp add: recognize_stream_def Let_def)
qed

section \<open>Properties of the client protocol handler\<close>

lemma fromhex_examples: "fromhex ''0aFF 10'' = Some [10, 255, 16]" "fromhex '''' = Some []" "fromhex ''a'' = None"
   "fromhex ''  '' = Some []" "fromhex ''a b'' = None"
  by (simp_all add: hex_val_def is_py_space_def)

lemma py_int_examples: "py_int ''12'' = Some 12" "py_int '' +1_0 '' = Some 10" "py_int ''1__0'' = None" "py_int ''-7'' = Some (-7)"
    "py_int '''' = None" "py_int ''_1'' = None" "py_int ''1_'' = None"
  by (simp_all add: py_int_def strip_def is_space_def is_digit_def dec_val_def)

lemma services_init_containers [simp]: "services (init_containers m s) = services m"
  by (simp add: init_containers_def Let_def)

lemma services_connect [simp]: "services (snd (connect m ws s ch)) = services m"
  by (simp add: connect_def Let_def split: option.splits)

lemma services_disconnect [simp]: "services (disconnect m s cid) = services m"
  by (simp add: disconnect_def Let_def split: option.splits)

lemma services_map_chunk_channel [simp]: "services (map_chunk_channel m s k c) = services m"
  by (simp add: map_chunk_channel_def Let_def split: option.splits)

lemma services_add_result [simp]: "services (add_transcription_result m s r) = services m"
  by (simp add: add_transcription_result_def Let_def split: option.splits)

lemma services_map_chunk_channel_py [simp]: "services (snd (map_chunk_channel_py m s k c)) = services m"
  by (simp add: map_chunk_channel_py_def split: option.splits)

lemma services_increment_chunks [simp]: "services (snd (increment_chunks m s)) = services m"
  by (simp add: increment_chunks_def split: option.splits)

lemma service_inv_started: "service_inv (snd (start_session new_service))"
  by (simp add: service_inv_def start_session_def new_service_def)

lemma service_inv_end_session: "service_inv svc \<Longrightarrow> service_inv (snd (end_session svc))"
  by (cases "svc_active svc") (simp_all add: service_inv_def end_session_def)

lemma service_inv_process: "service_inv svc \<Longrightarrow> service_inv (process_audio_chunk svc c)"
  by (cases "svc_active svc") (simp_all add: service_inv_def process_audio_chunk_def)

lemma services_inv_cong: "services m' = services m \<Longrightarrow> services_inv m \<Longrightarrow> services_inv m'"
  by (simp add: services_inv_def)

lemma services_inv_set_service:
  "services_inv m \<Longrightarrow> service_inv svc \<Longrightarrow> services_inv (set_service m s svc)"
  by (simp add: services_inv_def set_service_def)

lemma services_inv_get: "services_inv m \<Longrightarrow> get_service m s = Some svc \<Longrightarrow> service_inv svc"
  by (simp add: services_inv_def get_service_def)

lemma services_inv_forward_chunk:
  "services_inv m \<Longrightarrow> services_inv (snd (forward_chunk m s c raises))"
  by (auto simp add: forward_chunk_def split: option.splits
      intro: services_inv_set_service service_inv_process services_inv_get)

lemma services_inv_end_service_session:
  "services_inv m \<Longrightarrow> services_inv (snd (end_service_session m s))"
  by (auto simp add: end_service_session_def split: option.splits
      intro: services_inv_set_service service_inv_end_session services_inv_get)

lemma services_inv_handle_audio_chunk:
  assumes "services_inv m"
  shows "services_inv (snd (handle_audio_chunk m h ad ab cid fin raises))"
proof -
  have a: "services_inv (snd (map_chunk_channel_py m s k c))" for s k c
    by (rule services_inv_cong [OF services_map_chunk_channel_py assms])
  have b: "services_inv (snd (forward_chunk (snd (map_chunk_channel_py m s k c)) s' ch raises))" for s k c s' ch
    by (rule services_inv_forward_chunk [OF a])
  have c: "services_inv (snd (increment_chunks (snd (forward_chunk (snd (map_chunk_channel_py m s k c)) s' ch raises)) s''))"
    for s k c s' ch s''
    by (rule services_inv_cong [OF services_increment_chunks b])
  show ?thesis
    unfolding handle_audio_chunk_def Let_def
    using assms a b c
    by (auto split: option.splits prod.splits simp del: services_map_chunk_channel_py services_increment_chunks)
       (metis snd_conv)+
qed

lemma mgr_send_personal_message [simp]: "mgr (send_personal_message w msg s cid) = mgr w"
  by (simp add: send_personal_message_def Let_def split: option.splits)

lemma services_inv_finish: "services_inv (mgr w) \<Longrightarrow> services_inv (mgr (finish w ws h))"
  by (auto simp add: finish_def Let_def
      intro: services_inv_end_service_session services_inv_cong [OF services_disconnect])

lemma services_inv_handle_message:
  assumes "services_inv (mgr w)"
  shows "services_inv (mgr (handle_message w ws msg raises))"
proof (cases "handlers w ws")
  case None
  then show ?thesis using assms by (simp add: handle_message_def)
next
  case (Some h)
  show ?thesis
  proof (cases msg)
    case (AudioChunk ad ab cid fin)
    from services_inv_handle_audio_chunk [OF assms, of h ad ab cid fin raises]
    show ?thesis using Some AudioChunk
      by (auto simp add: handle_message_def split: prod.splits option.splits)
  next
    case EndSession
    have "services_inv (snd (end_service_session (mgr w) (h_session_id h)))"
      by (rule services_inv_end_service_session [OF assms])
    then show ?thesis using Some EndSession
      by (auto simp add: handle_message_def Let_def split: prod.splits intro!: services_inv_finish)
  qed (use Some assms in \<open>simp_all add: handle_message_def\<close>)
qed

lemma services_inv_ws_close: "services_inv (mgr w) \<Longrightarrow> services_inv (mgr (ws_close w ws))"
  by (auto simp add: ws_close_def split: option.splits intro: services_inv_finish)

lemma services_inv_ws_connect:
  assumes "services_inv (mgr w)"
  shows "services_inv (mgr (ws_connect w ws s ch rq))"
proof -
  have a: "services_inv (snd (connect (mgr w) ws s ch))"
    by (rule services_inv_cong [OF services_connect assms])
  show ?thesis
    using assms a
    by (auto simp add: ws_connect_def Let_def split: prod.splits sum.splits option.splits
        intro!: services_inv_set_service service_inv_started)
qed

lemma services_inv_end_stream_session:
  "services_inv (mgr w) \<Longrightarrow> services_inv (mgr (end_stream_session w s))"
  by (simp add: end_stream_session_def services_inv_end_service_session)

lemma services_inv_result_callback:
  "services_inv (mgr w) \<Longrightarrow> services_inv (mgr (result_callback w s r now))"
  by (auto simp add: result_callback_def send_transcription_result_def Let_def
      split: option.splits ts_in.splits intro: services_inv_cong [OF services_add_result])

lemma services_inv_step: "services_inv (mgr w) \<Longrightarrow> services_inv (mgr (step w ev))"
  by (cases ev)
     (simp_all add: services_inv_ws_connect services_inv_handle_message services_inv_ws_close
        services_inv_end_stream_session services_inv_result_callback)

lemma services_inv_run: "services_inv (mgr w) \<Longrightarrow> services_inv (mgr (run w evs))"
  unfolding run_def by (induction evs arbitrary: w) (simp_all add: services_inv_step)

lemma services_inv_init: "services_inv (mgr init_world)"
  by (simp add: services_inv_def init_world_def init_manager_def)

text \<open>
  C3. However often and in whatever combination end-session is triggered for a session
  (\<^verbatim>\<open>end_session\<close> messages of clients, the cleanup after the last client left, the
  management call), in every reachable state the shutdown of the session's service has run
  once if the service's \<^verbatim>\<open>end_session\<close> was called at all, and not otherwise: a second
  trigger calls the service again and the service does nothing.
\<close>

theorem upstream_shutdown_at_most_once:
  assumes "services (mgr (run init_world evs)) session_id = Some svc"
  shows "svc_shutdowns svc = min 1 (svc_end_calls svc)"
proof -
  have "services_inv (mgr (run init_world evs))"
    by (rule services_inv_run [OF services_inv_init])
  with assms have "service_inv svc" by (simp add: services_inv_def)
  then show ?thesis by (auto simp add: service_inv_def split: if_splits)
qed

theorem upstream_shutdown_at_most_once_witness:
  "services (mgr (run init_world
      [WsConnect 1 ''s'' None rq0, WsConnect 2 ''s'' None rq0, WsMessage 1 EndSession False,
       EndStreamSession ''s'', WsClose 2])) ''s'' =
     Some \<lparr>svc_active = False, svc_chunks = [], svc_end_calls = 3, svc_shutdowns = 1\<rparr> \<and>
   svc_shutdowns \<lparr>svc_active = False, svc_chunks = [], svc_end_calls = 3, svc_shutdowns = 1\<rparr> =
     min 1 (svc_end_calls \<lparr>svc_active = False, svc_chunks = [], svc_end_calls = 3, svc_shutdowns = 1\<rparr>)"
proof -
  have e: "services (mgr (run init_world
      [WsConnect 1 ''s'' None rq0, WsConnect 2 ''s'' None rq0, WsMessage 1 EndSession False,
       EndStreamSession ''s'', WsClose 2])) ''s'' =
     Some \<lparr>svc_active = False, svc_chunks = [], svc_end_calls = 3, svc_shutdowns = 1\<rparr>"
    by (simp add: gateway_eval)
  from upstream_shutdown_at_most_once [OF e] e show ?thesis by simp
qed

lemma ts_map_chunk_channel [simp]:
  "transcription_sessions (map_chunk_channel m s k c) = transcription_sessions m"
  by (simp add: map_chunk_channel_def Let_def split: option.splits)

lemma ts_disconnect [simp]: "transcription_sessions (disconnect m s cid) = transcription_sessions m"
  by (simp add: disconnect_def Let_def split: option.splits)

lemma ts_set_service [simp]: "transcription_sessions (set_service m s svc) = transcription_sessions m"
  by (simp add: set_service_def)

lemma ts_end_service_session [simp]:
  "transcription_sessions (snd (end_service_session m s)) = transcription_sessions m"
  by (simp add: end_service_session_def split: option.splits)

lemma ts_add_result [simp]:
  "transcription_sessions (add_transcription_result m s r) = transcription_sessions m"
  by (simp add: add_transcription_result_def Let_def split: option.splits)

lemma reported_chunks_cong:
  "transcription_sessions m' = transcription_sessions m \<Longrightarrow> reported_chunks m' s = reported_chunks m s"
  by (simp add: reported_chunks_def)

lemma reported_handle_audio_chunk:
  "reported_chunks (snd (handle_audio_chunk m h ad ab cid fin raises)) (h_session_id h) =
     reported_chunks m (h_session_id h) +
     (if counted m h (AudioChunk ad ab cid fin) raises then 1 else 0)"
  by (auto simp add: handle_audio_chunk_def counted_def Let_def reported_chunks_def
      map_chunk_channel_py_def forward_chunk_def increment_chunks_def get_service_def
      set_service_def
      split: option.splits)

lemma reported_finish:
  "reported_chunks (mgr (finish w ws h)) s = reported_chunks (mgr w) s"
  by (simp add: finish_def Let_def reported_chunks_def)

lemma conns_end_service_session [simp]:
  "active_connections (snd (end_service_session m s)) = active_connections m"
  by (simp add: end_service_session_def set_service_def split: option.splits)

lemma outbox_finish [simp]: "outbox (finish w ws h) = outbox w"
  by (simp add: finish_def Let_def)

text \<open>
  What the handler does with the counter: handling one message raises the counter of the
  session by one exactly when the message is an \<^verbatim>\<open>audio_chunk\<close> whose audio field
  (\<^verbatim>\<open>audio_data\<close> when that is a non-empty string, else \<^verbatim>\<open>audio_bytes\<close>) is not None and
  decodes as hexadecimal, and the chunk is forwarded without an exception; every other
  message leaves it unchanged. The \<^verbatim>\<open>session_ended\<close> acknowledgement goes to every websocket
  registered for the session and carries that counter.
\<close>

theorem chunk_counter_counts_decoded_audio_fields:
  assumes "handlers w ws = Some h"
  shows "reported_chunks (mgr (handle_message w ws msg raises)) (h_session_id h) =
           reported_chunks (mgr w) (h_session_id h) +
           (if counted (mgr w) h msg raises then 1 else 0) \<and>
         outbox (handle_message w ws EndSession raises) =
           outbox w @
           map (\<lambda>ws'. (ws', SessionEnded (h_session_id h) (reported_chunks (mgr w) (h_session_id h))))
             (map snd (case active_connections (mgr w) (h_session_id h) of
                         None \<Rightarrow> [] | Some cs \<Rightarrow> cs))"
proof
  show "reported_chunks (mgr (handle_message w ws msg raises)) (h_session_id h) =
           reported_chunks (mgr w) (h_session_id h) +
           (if counted (mgr w) h msg raises then 1 else 0)"
  proof (cases msg)
    case (AudioChunk ad ab cid fin)
    from reported_handle_audio_chunk [of "mgr w" h ad ab cid fin raises]
    show ?thesis using assms AudioChunk
      by (auto simp add: handle_message_def split: prod.splits option.splits)
  next
    case EndSession
    have "reported_chunks (snd (end_service_session (mgr w) (h_session_id h))) (h_session_id h) =
            reported_chunks (mgr w) (h_session_id h)"
      by (rule reported_chunks_cong) simp
    then show ?thesis using assms EndSession
      by (auto simp add: handle_message_def Let_def reported_finish counted_def split: prod.splits)
  qed (use assms in \<open>simp_all add: handle_message_def counted_def\<close>)
next
  have a: "reported_chunks (snd (end_service_session (mgr w) (h_session_id h))) (h_session_id h) =
            reported_chunks (mgr w) (h_session_id h)"
    by (rule reported_chunks_cong) simp
  show "outbox (handle_message w ws EndSession raises) =
           outbox w @
           map (\<lambda>ws'. (ws', SessionEnded (h_session_id h) (reported_chunks (mgr w) (h_session_id h))))
             (map snd (case active_connections (mgr w) (h_session_id h) of
                         None \<Rightarrow> [] | Some cs \<Rightarrow> cs))"
    using assms a
    by (simp add: handle_message_def Let_def send_personal_message_def split_beta)
qed

theorem chunk_counter_counts_decoded_audio_fields_witness:
  "handlers (run init_world [WsConnect 1 ''s'' None rq0]) 1 =
     Some \<lparr>h_session_id = ''s'', h_client_id = ''c1'', h_client_channel = Some 1,
           h_request = rq0, session_already_ended = False\<rparr> \<and>
   counted (mgr (run init_world [WsConnect 1 ''s'' None rq0]))
     \<lparr>h_session_id = ''s'', h_client_id = ''c1'', h_client_channel = Some 1,
      h_request = rq0, session_already_ended = False\<rparr>
     (AudioChunk (Some ''0aff'') None None False) False \<and>
   reported_chunks (mgr (run init_world [WsConnect 1 ''s'' None rq0])) ''s'' = 0 \<and>
   reported_chunks (mgr (handle_message (run init_world [WsConnect 1 ''s'' None rq0]) 1
     (AudioChunk (Some ''0aff'') None None False) False)) ''s'' = 1"
proof -
  have e: "handlers (run init_world [WsConnect 1 ''s'' None rq0]) 1 =
     Some \<lparr>h_session_id = ''s'', h_client_id = ''c1'', h_client_channel = Some 1,
           h_request = rq0, session_already_ended = False\<rparr>"
    by (simp add: gateway_eval)
  have c: "counted (mgr (run init_world [WsConnect 1 ''s'' None rq0]))
     \<lparr>h_session_id = ''s'', h_client_id = ''c1'', h_client_channel = Some 1,
      h_request = rq0, session_already_ended = False\<rparr>
     (AudioChunk (Some ''0aff'') None None False) False"
    by (simp add: gateway_eval counted_def hex_val_def is_py_space_def)
  have z: "reported_chunks (mgr (run init_world [WsConnect 1 ''s'' None rq0])) ''s'' = 0"
    by (simp add: gateway_eval)
  from chunk_counter_counts_decoded_audio_fields
         [OF e, of "AudioChunk (Some ''0aff'') None None False" False] e c z
  show ?thesis by simp
qed

text \<open>
  C10. The counter does not count the chunks with audio bytes only. The handler means a
  message without audio to take the branch that forwards the final empty chunk, or ignores
  the message, without counting, and \<^verbatim>\<open>"audio_data": ""\<close> does take it: the final chunk
  \<^verbatim>\<open>ch1-final_s\<close> is forwarded and \<^verbatim>\<open>session_ended\<close> reports 0. But the branch is chosen by
  \<^verbatim>\<open>raw_audio_hex is not None\<close> after \<^verbatim>\<open>audio_data or audio_bytes\<close>, so the same message with
  \<^verbatim>\<open>"audio_bytes": ""\<close> decodes to no bytes, is forwarded as the chunk \<^verbatim>\<open>ch1-s_1\<close> with empty
  audio and is counted: \<^verbatim>\<open>session_ended\<close> reports one processed chunk.
\<close>

theorem empty_hex_chunk_is_counted:
  "outbox (run init_world
      [WsConnect 1 ''s'' None rq0, WsMessage 1 (AudioChunk None (Some []) None True) False,
       WsMessage 1 EndSession False]) =
     [(1, ConnectionEstablished ''s'' rq0 (Some 1)), (1, SessionEnded ''s'' 1)] \<and>
   map_option svc_chunks (services (mgr (run init_world
      [WsConnect 1 ''s'' None rq0, WsMessage 1 (AudioChunk None (Some []) None True) False,
       WsMessage 1 EndSession False])) ''s'') =
     Some [\<lparr>sc_chunk_id = ''ch1-s_1'', sc_audio_data = [], sc_is_final = True\<rparr>] \<and>
   outbox (run init_world
      [WsConnect 1 ''s'' None rq0, WsMessage 1 (AudioChunk (Some []) None None True) False,
       WsMessage 1 EndSession False]) =
     [(1, ConnectionEstablished ''s'' rq0 (Some 1)), (1, SessionEnded ''s'' 0)] \<and>
   map_option svc_chunks (services (mgr (run init_world
      [WsConnect 1 ''s'' None rq0, WsMessage 1 (AudioChunk (Some []) None None True) False,
       WsMessage 1 EndSession False])) ''s'') =
     Some [\<lparr>sc_chunk_id = ''ch1-final_s'', sc_audio_data = [], sc_is_final = True\<rparr>]"
  by (simp add: gateway_eval)

lemma result_callback_sends_no_error:
  "transcription_sessions (mgr (result_callback w sid r now)) = transcription_sessions (mgr w) \<and>
   filter is_error_message (outbox (result_callback w sid r now)) =
     filter is_error_message (outbox w)"
  by (simp add: result_callback_def send_transcription_result_def send_personal_message_def
      Let_def comp_def split: option.splits ts_in.splits)

lemma result_callback_drops_error_record:
  "result_callback w sid (as_callback_result (ErrorRecord err det)) now = w"
  by (simp add: result_callback_def strip_def)

text \<open>
  C4, as stated, fails: with two clients connected, the records of a stream that the backend
  breaks after one partial result hold exactly one error record, but handing them to the
  result callback sends both clients the partial result only, no error message, and the
  status of the session stays \<^verbatim>\<open>connected\<close>.
\<close>

theorem rpc_error_reaches_no_client:
  "filter is_error_record
     (yielded (recognize_stream True
        \<lparr>yandex_api_key = Some ''k1'', yandex_iam_token = None, yandex_folder_id = None\<rparr>
        demo_upstream [[1, 2]] ''ru'' 16000)) =
     [ErrorRecord ''gRPC error: UNAVAILABLE'' (Detail ''connection reset'')] \<and>
   outbox (deliver (run init_world [WsConnect 1 ''s'' None rq0, WsConnect 2 ''s'' None rq0]) ''s''
     (yielded (recognize_stream True
        \<lparr>yandex_api_key = Some ''k1'', yandex_iam_token = None, yandex_folder_id = None\<rparr>
        demo_upstream [[1, 2]] ''ru'' 16000)) 5) =
     [(1, ConnectionEstablished ''s'' rq0 (Some 1)), (2, ConnectionEstablished ''s'' rq0 (Some 2)),
      (1, TranscriptionResultMsg [] ''hel'' False (Some 0) None 5),
      (2, TranscriptionResultMsg [] ''hel'' False (Some 0) None 5)] \<and>
   map_option status (transcription_sessions (mgr
     (deliver (run init_world [WsConnect 1 ''s'' None rq0, WsConnect 2 ''s'' None rq0]) ''s''
       (yielded (recognize_stream True
          \<lparr>yandex_api_key = Some ''k1'', yandex_iam_token = None, yandex_folder_id = None\<rparr>
          demo_upstream [[1, 2]] ''ru'' 16000)) 5)) ''s'') = Some ''connected''"
  by (simp add: gateway_eval deliver_def recognize_stream_def build_auth_metadata_def
      demo_upstream_def process_single_response_def recognized_alternatives_def strip_def
      is_space_def result_callback_def send_transcription_result_def channel_of_chunk_id_def
      resolve_channel_for_chunk_def add_transcription_result_def)

text \<open>
  C4, amended. When the backend call raises an RPC error in mid-stream, the adapter yields
  the records parsed so far followed by exactly one error record, naming the status code and
  the details, and closes the channel. The result callback drops that record: the world is
  unchanged. Whatever record the callback is given, it sends no error message and leaves the
  session table, the status included, as it was.
\<close>

theorem rpc_error_record_dropped_by_callback:
  assumes "build_auth_metadata st = Inr md" and "connect_failure up = None"
    and "stream_failure up = Some (RpcError code details)"
  shows "yielded (recognize_stream True st up audio_stream language sample_rate) =
           concat (map process_single_response (responses up)) @
           [ErrorRecord (''gRPC error: '' @ code) (Detail details)] \<and>
         length (filter is_error_record
           (yielded (recognize_stream True st up audio_stream language sample_rate))) = 1 \<and>
         channel_closed (recognize_stream True st up audio_stream language sample_rate) \<and>
         result_callback w session_id
           (as_callback_result (ErrorRecord (''gRPC error: '' @ code) (Detail details))) now = w \<and>
         transcription_sessions (mgr (result_callback w session_id r now)) =
           transcription_sessions (mgr w) \<and>
         filter is_error_message (outbox (result_callback w session_id r now)) =
           filter is_error_message (outbox w)"
proof -
  note y = recognize_stream_rpc_error [OF assms, of audio_stream language sample_rate]
  have c: "channel_closed (recognize_stream True st up audio_stream language sample_rate)"
    using assms by (simp add: recognize_stream_def Let_def)
  note d = result_callback_drops_error_record
             [of w session_id "''gRPC error: '' @ code" "Detail details" now]
  note n = result_callback_sends_no_error [of w session_id r now]
  show ?thesis
    using conjunct1 [OF y] conjunct2 [OF y] c d conjunct1 [OF n] conjunct2 [OF n]
    by (intro conjI)
qed

theorem rpc_error_record_dropped_by_callback_witness:
  "build_auth_metadata \<lparr>yandex_api_key = Some ''k1'', yandex_iam_token = None, yandex_folder_id = None\<rparr> =
     Inr [(''authorization'', ''Api-Key k1'')] \<and>
   connect_failure demo_upstream = None \<and>
   stream_failure demo_upstream = Some (RpcError ''UNAVAILABLE'' ''connection reset'') \<and>
   yielded (recognize_stream True
      \<lparr>yandex_api_key = Some ''k1'', yandex_iam_token = None, yandex_folder_id = None\<rparr>
      demo_upstream [[1, 2]] ''ru'' 16000) =
     [Recognized ''partial'' ''hel'' 0 [] False,
      ErrorRecord ''gRPC error: UNAVAILABLE'' (Detail ''connection reset'')] \<and>
   result_callback init_world ''s''
     (as_callback_result (ErrorRecord ''gRPC error: UNAVAILABLE'' (Detail ''connection reset''))) 5 =
     init_world"
proof -
  have a: "build_auth_metadata \<lparr>yandex_api_key = Some ''k1'', yandex_iam_token = None, yandex_folder_id = None\<rparr> =
     Inr [(''authorization'', ''Api-Key k1'')]"
    by (simp add: build_auth_metadata_def truthy_def)
  have b: "connect_failure demo_upstream = None"
    by (simp add: demo_upstream_def)
  have c: "stream_failure demo_upstream = Some (RpcError ''UNAVAILABLE'' ''connection reset'')"
    by (simp add: demo_upstream_def)
  have d: "concat (map process_single_response (responses demo_upstream)) =
             [Recognized ''partial'' ''hel'' 0 [] False]"
    by (simp add: demo_upstream_def process_single_response_def recognized_alternatives_def
        strip_def is_space_def)
  from rpc_error_record_dropped_by_callback [OF a b c, of "[[1, 2]]" "''ru''" 16000 init_world "''s''" 5]
    a b c d
  show ?thesis by simp
qed

end
